theory Spec2Isabelle
  imports Complex_Main
begin

section \<open>Ground-plane importer: geometry model, validator, parsers, loader\<close>

text \<open>
  A shallow embedding of \<^verbatim>\<open>scripts/gnd_importer\<close>: \<^verbatim>\<open>geometry_parser.py\<close>,
  \<^verbatim>\<open>gnd_validator.py\<close> and \<^verbatim>\<open>gnd_loader.py\<close>.

  Conventions of the embedding.
  \<^item> The values of Python's \<^verbatim>\<open>float\<close> are a type parameter \<open>'f\<close>, and the operations of
    the language on them (arithmetic, comparisons, \<^verbatim>\<open>round\<close>, \<^verbatim>\<open>math.cos\<close>, the literal
    \<^verbatim>\<open>1e-6\<close>) are the fields of a record \<open>float_ops\<close> that every function takes as its
    first argument. Nothing is assumed of these operations, so every theorem holds for
    IEEE double arithmetic with its rounding, infinities and NaN.
  \<^item> A loop that steps a float may never end (\<^verbatim>\<open>x + 5 == x\<close> for large \<^verbatim>\<open>x\<close>): the two
    loops of the grid search are partial functions, and \<open>None\<close> is a run that does not
    return.
  \<^item> A vertex is a Python list of numbers, so it is a list; reading a component that is
    not there raises \<^verbatim>\<open>IndexError\<close>, which is a value of the model.
  \<^item> Vertex indices stored in edges and faces are produced by \<^verbatim>\<open>len(...)\<close> in the
    parsers, so they are natural numbers.
  \<^item> Each f-string appended to a message list is a constructor of \<open>message\<close> carrying the
    interpolated values; the number formatting itself is not modelled.
  \<^item> The three message lists of a validator are Python list objects that the report shares
    with the validator, so they live in an explicit store.
\<close>

subsection \<open>Floating-point operations\<close>

datatype py_error =
    IndexError
  | ValueError string
  | OverflowError string
  | ImportError string
  | NotImplementedError string
  | OSError string
  | Exception string

text \<open>
  \<open>fadd\<close>, \<open>fsub\<close>, \<open>fmul\<close>, \<open>fdiv\<close> are \<^verbatim>\<open>+ - * /\<close>; \<open>flt\<close>, \<open>fle\<close>, \<open>fgt\<close>, \<open>feq\<close> are
  \<^verbatim>\<open>< <= > ==\<close>; \<open>float_of_int\<close> is the conversion of an \<^verbatim>\<open>int\<close> that meets a float;
  \<open>fround\<close> is \<^verbatim>\<open>round\<close> with one argument, which raises on an infinity and on NaN;
  \<open>fcos\<close>, \<open>fsin\<close>, \<open>fpi\<close> are \<^verbatim>\<open>math.cos\<close>, \<^verbatim>\<open>math.sin\<close>, \<^verbatim>\<open>math.pi\<close>; \<open>f1e_6\<close> is the literal
  \<^verbatim>\<open>1e-6\<close>. Every division in the source has a divisor that is not zero (the constants
  \<^verbatim>\<open>2\<close>, \<^verbatim>\<open>32\<close>, \<^verbatim>\<open>1e-6\<close>, and \<^verbatim>\<open>y2 - y1\<close> where exactly one of \<^verbatim>\<open>y1 > py\<close>, \<^verbatim>\<open>y2 > py\<close> holds), so
  \<open>fdiv\<close> has no error result.
\<close>

record 'f float_ops =
  fadd :: "'f \<Rightarrow> 'f \<Rightarrow> 'f"
  fsub :: "'f \<Rightarrow> 'f \<Rightarrow> 'f"
  fmul :: "'f \<Rightarrow> 'f \<Rightarrow> 'f"
  fdiv :: "'f \<Rightarrow> 'f \<Rightarrow> 'f"
  flt :: "'f \<Rightarrow> 'f \<Rightarrow> bool"
  fle :: "'f \<Rightarrow> 'f \<Rightarrow> bool"
  fgt :: "'f \<Rightarrow> 'f \<Rightarrow> bool"
  feq :: "'f \<Rightarrow> 'f \<Rightarrow> bool"
  float_of_int :: "int \<Rightarrow> 'f"
  fround :: "'f \<Rightarrow> py_error + int"
  fcos :: "'f \<Rightarrow> 'f"
  fsin :: "'f \<Rightarrow> 'f"
  fpi :: 'f
  f1e_6 :: 'f

subsection \<open>Data model\<close>

type_synonym 'f vertex = "'f list"
type_synonym edge = "nat list"
type_synonym face = "nat list"

datatype meta_value = Text string | Count nat

record 'f Geometry =
  vertices :: "'f vertex list"
  faces :: "face list"
  edges :: "edge list"
  metadata :: "(string \<times> meta_value) list"

definition Geometry_init :: "'f Geometry" where
  "Geometry_init = \<lparr>vertices = [], faces = [], edges = [], metadata = []\<rparr>"

datatype 'f message =
    Geometry_is_empty
  | Bounding_box_too_small 'f 'f int
  | Cannot_accommodate int 'f 'f
  | Z_axis_variation 'f
  | No_edges_or_faces
  | Open_boundary_vertices nat
  | Complex_geometry

text \<open>
  \<open>Bounding_box_too_small w h a\<close> is the message with measured width \<open>w\<close>, height \<open>h\<close>
  and required side \<open>a\<close>; \<open>Cannot_accommodate a w h\<close> is the feasibility message of the
  grid search, with the antenna side and the bounding box.
\<close>

subsection \<open>The store of message lists\<close>

type_synonym addr = nat

record 'f heap =
  cells :: "addr \<Rightarrow> 'f message list"
  next_free :: addr

definition empty_heap :: "'f heap" where
  "empty_heap = \<lparr>cells = (\<lambda>_. []), next_free = 0\<rparr>"

definition list_append :: "addr \<Rightarrow> 'f message \<Rightarrow> 'f heap \<Rightarrow> 'f heap" where
  "list_append a m h = h\<lparr>cells := (cells h)(a := cells h a @ [m])\<rparr>"

record 'f GNDValidator =
  geometry :: "'f Geometry"
  errors :: addr
  warnings :: addr
  suggestions :: addr

definition GNDValidator_init :: "'f Geometry \<Rightarrow> 'f heap \<Rightarrow> 'f GNDValidator \<times> 'f heap" where
  "GNDValidator_init g h =
     (let a = next_free h in
      (\<lparr>geometry = g, errors = a, warnings = a + 1, suggestions = a + 2\<rparr>,
       \<lparr>cells = (cells h)(a := [], a + 1 := [], a + 2 := []), next_free = a + 3\<rparr>))"

definition distinct_lists :: "'f GNDValidator \<Rightarrow> bool" where
  "distinct_lists v \<longleftrightarrow>
     errors v \<noteq> warnings v \<and> errors v \<noteq> suggestions v \<and> warnings v \<noteq> suggestions v"

subsection \<open>Reading coordinates\<close>

definition item :: "'f list \<Rightarrow> nat \<Rightarrow> py_error + 'f" where
  "item v i = (if i < length v then Inr (v ! i) else Inl IndexError)"

fun coords :: "nat \<Rightarrow> 'f vertex list \<Rightarrow> py_error + 'f list" where
  "coords i [] = Inr []"
| "coords i (v # vs) =
     (case item v i of
        Inl e \<Rightarrow> Inl e
      | Inr c \<Rightarrow> (case coords i vs of Inl e \<Rightarrow> Inl e | Inr cs \<Rightarrow> Inr (c # cs)))"

text \<open>\<^verbatim>\<open>[v[2] if len(v) > 2 else 0 for v in vertices]\<close> cannot raise.\<close>

definition z_coords :: "'f float_ops \<Rightarrow> 'f vertex list \<Rightarrow> 'f list" where
  "z_coords ops vs = map (\<lambda>v. if length v > 2 then v ! 2 else float_of_int ops 0) vs"

text \<open>Python's \<^verbatim>\<open>min\<close> and \<^verbatim>\<open>max\<close>: the first item, replaced by each later item that is
  \<^verbatim>\<open><\<close> (for \<^verbatim>\<open>max\<close>: \<^verbatim>\<open>>\<close>) the one held. Every call in the source is on a non-empty list.\<close>

definition py_min :: "'f float_ops \<Rightarrow> 'f list \<Rightarrow> 'f" where
  "py_min ops xs = fold (\<lambda>item held. if flt ops item held then item else held) (tl xs) (hd xs)"

definition py_max :: "'f float_ops \<Rightarrow> 'f list \<Rightarrow> 'f" where
  "py_max ops xs = fold (\<lambda>item held. if fgt ops item held then item else held) (tl xs) (hd xs)"

subsection \<open>Validator: point in polygon\<close>

text \<open>The body of the loop over edges in \<^verbatim>\<open>_point_in_polygon\<close>.\<close>

definition edge_step ::
  "'f float_ops \<Rightarrow> 'f vertex list \<Rightarrow> 'f \<Rightarrow> 'f \<Rightarrow> bool \<Rightarrow> edge \<Rightarrow> py_error + bool" where
  "edge_step ops vs px py inside e =
     (if length e < 2 then Inr inside
      else
        let start_idx = e ! 0; end_idx = e ! 1 in
        if start_idx \<ge> length vs \<or> end_idx \<ge> length vs then Inr inside
        else
          let v1 = vs ! start_idx; v2 = vs ! end_idx in
          (case item v1 0 of Inl err \<Rightarrow> Inl err | Inr x1 \<Rightarrow>
          (case item v1 1 of Inl err \<Rightarrow> Inl err | Inr y1 \<Rightarrow>
          (case item v2 0 of Inl err \<Rightarrow> Inl err | Inr x2 \<Rightarrow>
          (case item v2 1 of Inl err \<Rightarrow> Inl err | Inr y2 \<Rightarrow>
            if fgt ops y1 py \<noteq> fgt ops y2 py then
              let intersect_x =
                    fadd ops x1
                      (fdiv ops (fmul ops (fsub ops x2 x1) (fsub ops py y1)) (fsub ops y2 y1))
              in if flt ops px intersect_x then Inr (\<not> inside) else Inr inside
            else Inr inside)))))"

fun edge_loop ::
  "'f float_ops \<Rightarrow> 'f vertex list \<Rightarrow> 'f \<Rightarrow> 'f \<Rightarrow> edge list \<Rightarrow> bool \<Rightarrow> py_error + bool" where
  "edge_loop ops vs px py [] inside = Inr inside"
| "edge_loop ops vs px py (e # es) inside =
     (case edge_step ops vs px py inside e of
        Inl err \<Rightarrow> Inl err
      | Inr inside' \<Rightarrow> edge_loop ops vs px py es inside')"

definition point_in_polygon :: "'f float_ops \<Rightarrow> 'f Geometry \<Rightarrow> 'f \<Rightarrow> 'f \<Rightarrow> py_error + bool" where
  "point_in_polygon ops g px py =
     (if edges g = [] then Inr True
      else edge_loop ops (vertices g) px py (edges g) False)"

subsection \<open>Validator: grid search\<close>

text \<open>\<^verbatim>\<open>all(self._point_in_polygon(px, py) for px, py in test_points)\<close> stops at the first
  point that is outside.\<close>

fun all_in_polygon :: "'f float_ops \<Rightarrow> 'f Geometry \<Rightarrow> ('f \<times> 'f) list \<Rightarrow> py_error + bool" where
  "all_in_polygon ops g [] = Inr True"
| "all_in_polygon ops g ((px, py) # ps) =
     (case point_in_polygon ops g px py of
        Inl err \<Rightarrow> Inl err
      | Inr False \<Rightarrow> Inr False
      | Inr True \<Rightarrow> all_in_polygon ops g ps)"

definition test_points :: "'f float_ops \<Rightarrow> 'f \<Rightarrow> 'f \<Rightarrow> 'f \<Rightarrow> ('f \<times> 'f) list" where
  "test_points ops half_antenna x y =
     [(x, y),
      (fsub ops x half_antenna, fsub ops y half_antenna),
      (fadd ops x half_antenna, fsub ops y half_antenna),
      (fsub ops x half_antenna, fadd ops y half_antenna),
      (fadd ops x half_antenna, fadd ops y half_antenna)]"

text \<open>The inner \<^verbatim>\<open>while x <= max_x - half_antenna\<close> loop, with \<^verbatim>\<open>step = 5\<close>. The outcome
  \<open>Some (Inr True)\<close> is the \<^verbatim>\<open>return True\<close> that leaves both loops; \<open>None\<close> is a loop
  that does not end.\<close>

partial_function (option) x_loop ::
  "'f float_ops \<Rightarrow> 'f Geometry \<Rightarrow> 'f \<Rightarrow> 'f \<Rightarrow> 'f \<Rightarrow> 'f \<Rightarrow> (py_error + bool) option" where
  "x_loop ops g half_antenna max_x y x =
     (if fle ops x (fsub ops max_x half_antenna) then
        (case all_in_polygon ops g (test_points ops half_antenna x y) of
           Inl err \<Rightarrow> Some (Inl err)
         | Inr fits \<Rightarrow>
             if fits then Some (Inr True)
             else x_loop ops g half_antenna max_x y (fadd ops x (float_of_int ops 5)))
      else Some (Inr False))"

text \<open>The outer \<^verbatim>\<open>while y <= max_y - half_antenna\<close> loop.\<close>

partial_function (option) y_loop ::
  "'f float_ops \<Rightarrow> 'f Geometry \<Rightarrow> 'f \<Rightarrow> 'f \<Rightarrow> 'f \<Rightarrow> 'f \<Rightarrow> 'f \<Rightarrow> (py_error + bool) option" where
  "y_loop ops g half_antenna min_x max_x max_y y =
     (if fle ops y (fsub ops max_y half_antenna) then
        (case x_loop ops g half_antenna max_x y (fadd ops min_x half_antenna) of
           None \<Rightarrow> None
         | Some (Inl err) \<Rightarrow> Some (Inl err)
         | Some (Inr found) \<Rightarrow>
             if found then Some (Inr True)
             else y_loop ops g half_antenna min_x max_x max_y
                    (fadd ops y (float_of_int ops 5)))
      else Some (Inr False))"

text \<open>\<^verbatim>\<open>half_antenna = antenna_size / 2\<close> with the integer \<^verbatim>\<open>antenna_size\<close>.\<close>

definition test_antenna_fit ::
  "'f float_ops \<Rightarrow> 'f Geometry \<Rightarrow> int \<Rightarrow> 'f \<Rightarrow> 'f \<Rightarrow> 'f \<Rightarrow> 'f \<Rightarrow> (py_error + bool) option" where
  "test_antenna_fit ops g antenna_size min_x max_x min_y max_y =
     (let half_antenna = fdiv ops (float_of_int ops antenna_size) (float_of_int ops 2)
      in y_loop ops g half_antenna min_x max_x max_y (fadd ops min_y half_antenna))"

subsection \<open>Validator: the checks\<close>

definition check_empty_geometry :: "'f GNDValidator \<Rightarrow> 'f heap \<Rightarrow> 'f heap" where
  "check_empty_geometry self h =
     (if vertices (geometry self) = [] then list_append (errors self) Geometry_is_empty h
      else h)"

definition check_minimum_size ::
  "'f float_ops \<Rightarrow> 'f GNDValidator \<Rightarrow> 'f heap \<Rightarrow> (py_error + 'f heap) option" where
  "check_minimum_size ops self h =
     (if vertices (geometry self) = [] then Some (Inr h)
      else
        (case coords 0 (vertices (geometry self)) of
           Inl err \<Rightarrow> Some (Inl err) | Inr x_coords \<Rightarrow>
        (case coords 1 (vertices (geometry self)) of
           Inl err \<Rightarrow> Some (Inl err) | Inr y_coords \<Rightarrow>
          let min_x = py_min ops x_coords; max_x = py_max ops x_coords;
              min_y = py_min ops y_coords; max_y = py_max ops y_coords;
              width = fsub ops max_x min_x; height = fsub ops max_y min_y;
              antenna_size = 25
          in
            if flt ops width (float_of_int ops antenna_size)
               \<or> flt ops height (float_of_int ops antenna_size) then
              Some (Inr (list_append (errors self)
                           (Bounding_box_too_small width height antenna_size) h))
            else if edges (geometry self) \<noteq> [] then
              (case test_antenna_fit ops (geometry self) antenna_size min_x max_x min_y max_y of
                 None \<Rightarrow> None
               | Some (Inl err) \<Rightarrow> Some (Inl err)
               | Some (Inr can_fit) \<Rightarrow>
                   if \<not> can_fit then
                     Some (Inr (list_append (errors self)
                                  (Cannot_accommodate antenna_size width height) h))
                   else Some (Inr h))
            else Some (Inr h))))"

definition check_planar_geometry :: "'f float_ops \<Rightarrow> 'f GNDValidator \<Rightarrow> 'f heap \<Rightarrow> 'f heap" where
  "check_planar_geometry ops self h =
     (if vertices (geometry self) = [] then h
      else
        let zs = z_coords ops (vertices (geometry self));
            z_variation = fsub ops (py_max ops zs) (py_min ops zs)
        in if fgt ops z_variation (float_of_int ops 5)
           then list_append (suggestions self) (Z_axis_variation z_variation) h
           else h)"

text \<open>\<^verbatim>\<open>edge_count\<close> is a dict with integer keys: an association list in insertion order,
  updated in place.\<close>

fun dict_bump :: "(nat \<times> nat) list \<Rightarrow> nat \<Rightarrow> (nat \<times> nat) list" where
  "dict_bump [] k = [(k, 1)]"
| "dict_bump ((k', c) # kcs) k =
     (if k' = k then (k', c + 1) # kcs else (k', c) # dict_bump kcs k)"

definition build_edge_count :: "edge list \<Rightarrow> (nat \<times> nat) list" where
  "build_edge_count es =
     fold (\<lambda>e edge_count. fold (\<lambda>vertex_idx m. dict_bump m vertex_idx) e edge_count) es []"

definition check_closed_boundaries :: "'f GNDValidator \<Rightarrow> 'f heap \<Rightarrow> 'f heap" where
  "check_closed_boundaries self h =
     (if edges (geometry self) = [] then
        (if faces (geometry self) \<noteq> [] then h
         else list_append (warnings self) No_edges_or_faces h)
      else
        let edge_count = build_edge_count (edges (geometry self));
            open_vertices = map fst (filter (\<lambda>(v, count). count mod 2 \<noteq> 0) edge_count)
        in if open_vertices \<noteq> [] \<and> length open_vertices > 2
           then list_append (warnings self) (Open_boundary_vertices (length open_vertices)) h
           else h)"

definition check_self_intersections :: "'f GNDValidator \<Rightarrow> 'f heap \<Rightarrow> 'f heap" where
  "check_self_intersections self h =
     (if length (edges (geometry self)) > 100
      then list_append (suggestions self) Complex_geometry h
      else h)"

text \<open>\<^verbatim>\<open>is_valid\<close> runs the five check methods in order and reads the error list.\<close>

definition is_valid ::
  "'f float_ops \<Rightarrow> 'f GNDValidator \<Rightarrow> 'f heap \<Rightarrow> (py_error + (bool \<times> 'f heap)) option" where
  "is_valid ops self h =
     (let h1 = check_empty_geometry self h in
      case check_minimum_size ops self h1 of
        None \<Rightarrow> None
      | Some (Inl err) \<Rightarrow> Some (Inl err)
      | Some (Inr h2) \<Rightarrow>
          let h3 = check_planar_geometry ops self h2;
              h4 = check_closed_boundaries self h3;
              h5 = check_self_intersections self h4
          in Some (Inr (cells h5 (errors self) = [], h5)))"

text \<open>The report dict: \<^verbatim>\<open>valid\<close> is a value, the other three entries are the validator's
  own list objects.\<close>

record report =
  valid :: bool
  errors_ref :: addr
  warnings_ref :: addr
  suggestions_ref :: addr

definition get_report ::
  "'f float_ops \<Rightarrow> 'f GNDValidator \<Rightarrow> 'f heap \<Rightarrow> (py_error + (report \<times> 'f heap)) option" where
  "get_report ops self h =
     (case is_valid ops self h of
        None \<Rightarrow> None
      | Some (Inl err) \<Rightarrow> Some (Inl err)
      | Some (Inr (ok, h')) \<Rightarrow>
          Some (Inr (\<lparr>valid = ok, errors_ref = errors self,
                      warnings_ref = warnings self, suggestions_ref = suggestions self\<rparr>, h')))"

definition get_errors :: "'f GNDValidator \<Rightarrow> 'f heap \<Rightarrow> 'f message list" where
  "get_errors self h = cells h (errors self)"

definition get_warnings :: "'f GNDValidator \<Rightarrow> 'f heap \<Rightarrow> 'f message list" where
  "get_warnings self h = cells h (warnings self)"

definition get_suggestions :: "'f GNDValidator \<Rightarrow> 'f heap \<Rightarrow> 'f message list" where
  "get_suggestions self h = cells h (suggestions self)"

text \<open>What a reader of a report sees in a given store.\<close>

record 'f report_view =
  view_valid :: bool
  view_errors :: "'f message list"
  view_warnings :: "'f message list"
  view_suggestions :: "'f message list"

definition read_report :: "'f heap \<Rightarrow> report \<Rightarrow> 'f report_view" where
  "read_report h r =
     \<lparr>view_valid = valid r, view_errors = cells h (errors_ref r),
      view_warnings = cells h (warnings_ref r),
      view_suggestions = cells h (suggestions_ref r)\<rparr>"

text \<open>One validation run as the loader performs it: a fresh validator, one call of
  \<^verbatim>\<open>get_report\<close>.\<close>

definition validate :: "'f float_ops \<Rightarrow> 'f Geometry \<Rightarrow> (py_error + 'f report_view) option" where
  "validate ops g =
     (let (self, h) = GNDValidator_init g empty_heap in
      case get_report ops self h of
        None \<Rightarrow> None
      | Some (Inl err) \<Rightarrow> Some (Inl err)
      | Some (Inr (r, h')) \<Rightarrow> Some (Inr (read_report h' r)))"

subsection \<open>Loader: bounding box\<close>

record 'f bounds =
  b_min_x :: 'f
  b_max_x :: 'f
  b_min_y :: 'f
  b_max_y :: 'f
  b_min_z :: 'f
  b_max_z :: 'f
  b_width :: 'f
  b_height :: 'f
  b_depth :: 'f
  b_center :: "'f list"

text \<open>\<^verbatim>\<open>calculate_bounds\<close>: \<open>None\<close> is Python's \<^verbatim>\<open>None\<close>. The list \<^verbatim>\<open>z_coords\<close> is as long
  as the vertex list, so it is not empty where the source tests it.\<close>

definition calculate_bounds :: "'f float_ops \<Rightarrow> 'f Geometry \<Rightarrow> py_error + 'f bounds option" where
  "calculate_bounds ops g =
     (if vertices g = [] then Inr None
      else
        (case coords 0 (vertices g) of Inl err \<Rightarrow> Inl err | Inr x_coords \<Rightarrow>
        (case coords 1 (vertices g) of Inl err \<Rightarrow> Inl err | Inr y_coords \<Rightarrow>
          let zs = z_coords ops (vertices g) in
          Inr (Some
            \<lparr>b_min_x = py_min ops x_coords, b_max_x = py_max ops x_coords,
             b_min_y = py_min ops y_coords, b_max_y = py_max ops y_coords,
             b_min_z = (if zs \<noteq> [] then py_min ops zs else float_of_int ops 0),
             b_max_z = (if zs \<noteq> [] then py_max ops zs else float_of_int ops 0),
             b_width = fsub ops (py_max ops x_coords) (py_min ops x_coords),
             b_height = fsub ops (py_max ops y_coords) (py_min ops y_coords),
             b_depth = (if zs \<noteq> [] then fsub ops (py_max ops zs) (py_min ops zs)
                        else float_of_int ops 0),
             b_center =
               [fdiv ops (fadd ops (py_min ops x_coords) (py_max ops x_coords))
                  (float_of_int ops 2),
                fdiv ops (fadd ops (py_min ops y_coords) (py_max ops y_coords))
                  (float_of_int ops 2),
                (if zs \<noteq> [] then
                   fdiv ops (fadd ops (py_min ops zs) (py_max ops zs)) (float_of_int ops 2)
                 else float_of_int ops 0)]\<rparr>))))"

subsection \<open>Parsers: dictionaries\<close>

text \<open>
  A \<^verbatim>\<open>dict\<close> as the list of its entries in insertion order. \<open>same stored probe\<close> is the
  \<^verbatim>\<open>==\<close> of the keys. Among float values \<^verbatim>\<open>==\<close> is symmetric and transitive, so at most one
  stored key is \<^verbatim>\<open>==\<close> to a probe and the order in which a lookup tries the entries does
  not matter.
\<close>

fun dict_find :: "('k \<Rightarrow> 'k \<Rightarrow> bool) \<Rightarrow> ('k \<times> 'v) list \<Rightarrow> 'k \<Rightarrow> 'v option" where
  "dict_find same [] k = None"
| "dict_find same ((k', v) # m) k = (if same k' k then Some v else dict_find same m k)"

subsection \<open>Parsers: vertex deduplication of the DXF parser\<close>

type_synonym 'f point = "'f \<times> 'f \<times> 'f"

text \<open>\<^verbatim>\<open>round(x / epsilon) * epsilon\<close>: \<^verbatim>\<open>round\<close> gives an \<^verbatim>\<open>int\<close>, or raises.\<close>

definition snap :: "'f float_ops \<Rightarrow> 'f \<Rightarrow> py_error + 'f" where
  "snap ops x =
     (case fround ops (fdiv ops x (f1e_6 ops)) of
        Inl err \<Rightarrow> Inl err
      | Inr n \<Rightarrow> Inr (fmul ops (float_of_int ops n) (f1e_6 ops)))"

definition vertex_key :: "'f float_ops \<Rightarrow> 'f \<Rightarrow> 'f \<Rightarrow> 'f \<Rightarrow> py_error + 'f point" where
  "vertex_key ops x y z =
     (case snap ops x of Inl err \<Rightarrow> Inl err | Inr kx \<Rightarrow>
     (case snap ops y of Inl err \<Rightarrow> Inl err | Inr ky \<Rightarrow>
     (case snap ops z of Inl err \<Rightarrow> Inl err | Inr kz \<Rightarrow> Inr (kx, ky, kz))))"

text \<open>
  The closure \<^verbatim>\<open>add_vertex\<close> works on \<^verbatim>\<open>vertex_map\<close> and \<^verbatim>\<open>geometry\<close> of the enclosing
  parser call: the state of the DXF parser. A key is a triple of products of an integer
  and \<^verbatim>\<open>1e-6\<close>, so no component is a NaN or a negative zero, and \<^verbatim>\<open>==\<close> of two keys is
  equality of their values.
\<close>

record 'f dxf_state =
  vertex_map :: "('f point \<times> nat) list"
  geom :: "'f Geometry"

definition dxf_init :: "'f dxf_state" where
  "dxf_init = \<lparr>vertex_map = [], geom = Geometry_init\<rparr>"

definition add_vertex ::
  "'f float_ops \<Rightarrow> 'f \<Rightarrow> 'f \<Rightarrow> 'f \<Rightarrow> 'f dxf_state \<Rightarrow> py_error + (nat \<times> 'f dxf_state)" where
  "add_vertex ops x y z s =
     (case vertex_key ops x y z of
        Inl err \<Rightarrow> Inl err
      | Inr key \<Rightarrow>
          (case dict_find (=) (vertex_map s) key of
             None \<Rightarrow>
               Inr (length (vertices (geom s)),
                    \<lparr>vertex_map = vertex_map s @ [(key, length (vertices (geom s)))],
                     geom = (geom s)\<lparr>vertices := vertices (geom s) @ [[x, y, z]]\<rparr>\<rparr>)
           | Some i \<Rightarrow> Inr (i, s)))"

text \<open>\<^verbatim>\<open>[add_vertex(p[0], p[1], p[2]) for p in points]\<close>, left to right.\<close>

fun add_vertices ::
  "'f float_ops \<Rightarrow> 'f point list \<Rightarrow> 'f dxf_state \<Rightarrow> py_error + (nat list \<times> 'f dxf_state)" where
  "add_vertices ops [] s = Inr ([], s)"
| "add_vertices ops ((x, y, z) # ps) s =
     (case add_vertex ops x y z s of
        Inl err \<Rightarrow> Inl err
      | Inr (i, s1) \<Rightarrow>
          (case add_vertices ops ps s1 of
             Inl err \<Rightarrow> Inl err
           | Inr (js, s2) \<Rightarrow> Inr (i # js, s2)))"

subsection \<open>Parsers: DXF entities\<close>

datatype 'f entity =
    LINE "'f point" "'f point"
  | LWPOLYLINE "('f \<times> 'f) list" bool
  | POLYLINE "'f point list" bool
  | FACE3D "'f point" "'f point" "'f point"
  | CIRCLE "'f point" 'f
  | OTHER string

text \<open>
  What \<^verbatim>\<open>ezdxf\<close> hands to the parser: \<open>LINE start end\<close>; \<open>LWPOLYLINE\<close> with the x and y of
  \<^verbatim>\<open>get_points()\<close> and the \<^verbatim>\<open>closed\<close> flag; \<open>POLYLINE\<close> with the vertex locations and
  \<^verbatim>\<open>is_closed\<close>; \<open>FACE3D vtx0 vtx1 vtx2\<close> for a \<^verbatim>\<open>3DFACE\<close>; \<open>CIRCLE center radius\<close>; any other
  entity type, which the parser skips.
\<close>

record 'f dxf_document =
  entities :: "'f entity list"
  layers :: nat

definition append_edges :: "edge list \<Rightarrow> 'f dxf_state \<Rightarrow> 'f dxf_state" where
  "append_edges es s = s\<lparr>geom := (geom s)\<lparr>edges := edges (geom s) @ es\<rparr>\<rparr>"

definition append_face :: "face \<Rightarrow> 'f dxf_state \<Rightarrow> 'f dxf_state" where
  "append_face f s = s\<lparr>geom := (geom s)\<lparr>faces := faces (geom s) @ [f]\<rparr>\<rparr>"

text \<open>The edges of a polyline: one per consecutive pair, and \<^verbatim>\<open>[indices[-1], indices[0]]\<close>
  when it is closed and has a point.\<close>

definition polyline_edges :: "nat list \<Rightarrow> bool \<Rightarrow> edge list" where
  "polyline_edges indices is_closed =
     map (\<lambda>i. [indices ! i, indices ! (i + 1)]) [0..<length indices - 1]
     @ (if is_closed \<and> length indices > 0 then [[last indices, hd indices]] else [])"

definition segments :: nat where
  "segments = 32"

text \<open>\<^verbatim>\<open>angle = (2 * math.pi * i) / segments\<close>, \<^verbatim>\<open>x = center.x + radius * math.cos(angle)\<close>.\<close>

definition circle_points :: "'f float_ops \<Rightarrow> 'f point \<Rightarrow> 'f \<Rightarrow> 'f point list" where
  "circle_points ops center radius =
     (case center of (cx, cy, cz) \<Rightarrow>
        map (\<lambda>i. let angle =
                        fdiv ops
                          (fmul ops (fmul ops (float_of_int ops 2) (fpi ops))
                             (float_of_int ops (int i)))
                          (float_of_int ops (int segments))
                  in (fadd ops cx (fmul ops radius (fcos ops angle)),
                      fadd ops cy (fmul ops radius (fsin ops angle)), cz))
            [0..<segments])"

definition circle_edges :: "nat list \<Rightarrow> edge list" where
  "circle_edges indices =
     map (\<lambda>i. [indices ! i, indices ! ((i + 1) mod segments)]) [0..<segments]"

fun dxf_entity :: "'f float_ops \<Rightarrow> 'f entity \<Rightarrow> 'f dxf_state \<Rightarrow> py_error + 'f dxf_state" where
  "dxf_entity ops (LINE (x1, y1, z1) (x2, y2, z2)) s =
     (case add_vertex ops x1 y1 z1 s of
        Inl err \<Rightarrow> Inl err
      | Inr (v1_idx, s1) \<Rightarrow>
          (case add_vertex ops x2 y2 z2 s1 of
             Inl err \<Rightarrow> Inl err
           | Inr (v2_idx, s2) \<Rightarrow> Inr (append_edges [[v1_idx, v2_idx]] s2)))"
| "dxf_entity ops (LWPOLYLINE pts is_closed) s =
     (let points = map (\<lambda>(x, y). (x, y, float_of_int ops 0)) pts in
      case add_vertices ops points s of
        Inl err \<Rightarrow> Inl err
      | Inr (indices, s') \<Rightarrow> Inr (append_edges (polyline_edges indices is_closed) s'))"
| "dxf_entity ops (POLYLINE points is_closed) s =
     (case add_vertices ops points s of
        Inl err \<Rightarrow> Inl err
      | Inr (indices, s') \<Rightarrow> Inr (append_edges (polyline_edges indices is_closed) s'))"
| "dxf_entity ops (FACE3D vtx0 vtx1 vtx2) s =
     (case add_vertices ops [vtx0, vtx1, vtx2] s of
        Inl err \<Rightarrow> Inl err
      | Inr (vertices_idx, s') \<Rightarrow> Inr (append_face vertices_idx s'))"
| "dxf_entity ops (CIRCLE center radius) s =
     (case add_vertices ops (circle_points ops center radius) s of
        Inl err \<Rightarrow> Inl err
      | Inr (indices, s') \<Rightarrow> Inr (append_edges (circle_edges indices) s'))"
| "dxf_entity ops (OTHER t) s = Inr s"

text \<open>\<^verbatim>\<open>for entity in msp\<close>: an exception ends the loop and the parse.\<close>

fun dxf_entities :: "'f float_ops \<Rightarrow> 'f entity list \<Rightarrow> 'f dxf_state \<Rightarrow> py_error + 'f dxf_state" where
  "dxf_entities ops [] s = Inr s"
| "dxf_entities ops (e # es) s =
     (case dxf_entity ops e s of
        Inl err \<Rightarrow> Inl err
      | Inr s' \<Rightarrow> dxf_entities ops es s')"

definition parse_dxf_document :: "'f float_ops \<Rightarrow> 'f dxf_document \<Rightarrow> py_error + 'f Geometry" where
  "parse_dxf_document ops doc =
     (case dxf_entities ops (entities doc) dxf_init of
        Inl err \<Rightarrow> Inl err
      | Inr s \<Rightarrow>
          Inr ((geom s)
                 \<lparr>metadata := [(''units'', Text ''mm''), (''source'', Text ''DXF''),
                               (''layer_count'', Count (layers doc)),
                               (''entity_count'', Count (length (entities doc)))]\<rparr>))"

subsection \<open>Parsers: STL\<close>

text \<open>
  A triangle of \<^verbatim>\<open>stl_mesh.vectors\<close> is a sequence of vertices; the key of a vertex is the
  tuple of its coordinates, and two tuples are \<^verbatim>\<open>==\<close> when they have the same length and
  their components are \<^verbatim>\<open>==\<close>. The coordinates come from the file, so a key may hold a
  negative zero, which is \<^verbatim>\<open>==\<close> to zero, or a NaN, which is \<^verbatim>\<open>==\<close> to nothing.
\<close>

type_synonym 'f triangle = "'f vertex list"

definition tuple_eq :: "'f float_ops \<Rightarrow> 'f list \<Rightarrow> 'f list \<Rightarrow> bool" where
  "tuple_eq ops u v = list_all2 (feq ops) u v"

record 'f stl_state =
  stl_vertex_map :: "('f list \<times> nat) list"
  stl_geom :: "'f Geometry"

definition stl_init :: "'f stl_state" where
  "stl_init = \<lparr>stl_vertex_map = [], stl_geom = Geometry_init\<rparr>"

definition stl_vertex ::
  "'f float_ops \<Rightarrow> 'f vertex \<Rightarrow> nat list \<times> 'f stl_state \<Rightarrow> nat list \<times> 'f stl_state" where
  "stl_vertex ops v acc =
     (case acc of (face_indices, s) \<Rightarrow>
        (case dict_find (tuple_eq ops) (stl_vertex_map s) v of
           None \<Rightarrow>
             (face_indices @ [length (vertices (stl_geom s))],
              \<lparr>stl_vertex_map = stl_vertex_map s @ [(v, length (vertices (stl_geom s)))],
               stl_geom = (stl_geom s)\<lparr>vertices := vertices (stl_geom s) @ [v]\<rparr>\<rparr>)
         | Some i \<Rightarrow> (face_indices @ [i], s)))"

definition stl_triangle :: "'f float_ops \<Rightarrow> 'f triangle \<Rightarrow> 'f stl_state \<Rightarrow> 'f stl_state" where
  "stl_triangle ops t s =
     (case fold (stl_vertex ops) t ([], s) of (face_indices, s') \<Rightarrow>
        s'\<lparr>stl_geom := (stl_geom s')\<lparr>faces := faces (stl_geom s') @ [face_indices]\<rparr>\<rparr>)"

definition stl_triangles :: "'f float_ops \<Rightarrow> 'f triangle list \<Rightarrow> 'f stl_state" where
  "stl_triangles ops ts = fold (stl_triangle ops) ts stl_init"

definition parse_stl_mesh :: "'f float_ops \<Rightarrow> 'f triangle list \<Rightarrow> 'f Geometry" where
  "parse_stl_mesh ops ts =
     (let g = stl_geom (stl_triangles ops ts) in
      g\<lparr>metadata := [(''units'', Text ''mm''), (''source'', Text ''STL''),
                     (''triangle_count'', Count (length ts)),
                     (''unique_vertices'', Count (length (vertices g)))]\<rparr>)"

subsection \<open>Parsers: dispatch\<close>

text \<open>
  A file as the parsers see it: the suffix of its path, the path as a string, and the
  outcome of each of the three ways the code reads a file, which are calls into libraries
  outside the repository (\<^verbatim>\<open>ezdxf.readfile\<close>, \<^verbatim>\<open>mesh.Mesh.from_file\<close>, \<^verbatim>\<open>open\<close> and
  \<^verbatim>\<open>read\<close>); each may raise. \<open>numpy_import\<close> is the outcome of \<^verbatim>\<open>import numpy\<close> in
  \<^verbatim>\<open>to_dict\<close>.
\<close>

record 'f source_file =
  suffix :: string
  path_str :: string
  dxf_read :: "py_error + 'f dxf_document"
  stl_read :: "py_error + 'f triangle list"
  text_read :: "py_error + string"
  numpy_import :: "py_error + unit"

text \<open>\<^verbatim>\<open>str.lower\<close>, on the ASCII letters.\<close>

definition ascii_lower :: "char \<Rightarrow> char" where
  "ascii_lower c =
     (case map_of (zip ''ABCDEFGHIJKLMNOPQRSTUVWXYZ'' ''abcdefghijklmnopqrstuvwxyz'') c of
        None \<Rightarrow> c
      | Some l \<Rightarrow> l)"

definition parse_dxf :: "'f float_ops \<Rightarrow> 'f source_file \<Rightarrow> py_error + 'f Geometry" where
  "parse_dxf ops f =
     (case dxf_read f of Inl e \<Rightarrow> Inl e | Inr doc \<Rightarrow> parse_dxf_document ops doc)"

definition parse_stl :: "'f float_ops \<Rightarrow> 'f source_file \<Rightarrow> py_error + 'f Geometry" where
  "parse_stl ops f =
     (case stl_read f of Inl e \<Rightarrow> Inl e | Inr ts \<Rightarrow> Inr (parse_stl_mesh ops ts))"

definition parse_step :: "py_error + 'f Geometry" where
  "parse_step =
     Inl (NotImplementedError
            ''STEP parsing requires pythonOCC-core. Coming in future update.'')"

definition parse_vbscript :: "'f source_file \<Rightarrow> py_error + 'f Geometry" where
  "parse_vbscript f =
     (case text_read f of
        Inl e \<Rightarrow> Inl e
      | Inr content \<Rightarrow>
          Inr (Geometry_init
                 \<lparr>metadata := [(''source'', Text ''HFSS_VBScript''),
                               (''script_content'', Text content),
                               (''file_path'', Text (path_str f))]\<rparr>))"

definition parse :: "'f float_ops \<Rightarrow> 'f source_file \<Rightarrow> py_error + 'f Geometry" where
  "parse ops f =
     (let format = map ascii_lower (suffix f) in
      if format = ''.dxf'' then parse_dxf ops f
      else if format = ''.stl'' then parse_stl ops f
      else if format \<in> set [''.step'', ''.stp''] then parse_step
      else if format = ''.vbs'' then parse_vbscript f
      else Inl (ValueError (''Unsupported format: '' @ format)))"

subsection \<open>Loader\<close>

text \<open>\<^verbatim>\<open>str(e)\<close> of a caught exception.\<close>

fun str_exc :: "py_error \<Rightarrow> string" where
  "str_exc IndexError = ''list index out of range''"
| "str_exc (ValueError m) = m"
| "str_exc (OverflowError m) = m"
| "str_exc (ImportError m) = m"
| "str_exc (NotImplementedError m) = m"
| "str_exc (OSError m) = m"
| "str_exc (Exception m) = m"

text \<open>\<^verbatim>\<open>sep.join(xs)\<close>.\<close>

fun py_join :: "string \<Rightarrow> string list \<Rightarrow> string" where
  "py_join sep [] = []"
| "py_join sep [x] = x"
| "py_join sep (x # y # ys) = x @ sep @ py_join sep (y # ys)"

text \<open>\<^verbatim>\<open>to_dict\<close> leaves Python floats and lists as they are; it needs \<^verbatim>\<open>numpy\<close>.\<close>

definition to_dict :: "'f source_file \<Rightarrow> 'f Geometry \<Rightarrow> py_error + 'f Geometry" where
  "to_dict f g = (case numpy_import f of Inl e \<Rightarrow> Inl e | Inr _ \<Rightarrow> Inr g)"

record 'f load_result =
  res_geometry :: "'f Geometry"
  res_bounds :: "'f bounds option"
  res_format :: string
  res_vertex_count :: nat
  res_face_count :: nat
  res_edge_count :: nat
  res_validation :: "'f report_view"

text \<open>The body of the \<^verbatim>\<open>try\<close> in \<^verbatim>\<open>load\<close>. \<open>render\<close> is the text of a message, that is the
  f-string with its numbers formatted.\<close>

definition load_try ::
  "'f float_ops \<Rightarrow> ('f message \<Rightarrow> string) \<Rightarrow> 'f source_file
     \<Rightarrow> (py_error + 'f load_result) option" where
  "load_try ops render f =
     (case parse ops f of Inl e \<Rightarrow> Some (Inl e) | Inr g \<Rightarrow>
     (case validate ops g of
        None \<Rightarrow> None
      | Some (Inl e) \<Rightarrow> Some (Inl e)
      | Some (Inr validation_report) \<Rightarrow>
        if \<not> view_valid validation_report then
          Some (Inl (ValueError (''Invalid geometry: ''
                 @ py_join '', '' (map render (view_errors validation_report)))))
        else
          (case calculate_bounds ops g of Inl e \<Rightarrow> Some (Inl e) | Inr b \<Rightarrow>
          (case to_dict f g of Inl e \<Rightarrow> Some (Inl e) | Inr d \<Rightarrow>
             Some (Inr \<lparr>res_geometry = d, res_bounds = b,
                  res_format = map ascii_lower (suffix f),
                  res_vertex_count = length (vertices g),
                  res_face_count = length (faces g),
                  res_edge_count = length (edges g),
                  res_validation = validation_report\<rparr>)))))"

definition load ::
  "'f float_ops \<Rightarrow> ('f message \<Rightarrow> string) \<Rightarrow> 'f source_file
     \<Rightarrow> (py_error + 'f load_result) option" where
  "load ops render f =
     (case load_try ops render f of
        None \<Rightarrow> None
      | Some (Inl e) \<Rightarrow> Some (Inl (Exception (''Failed to load GND file: '' @ str_exc e)))
      | Some (Inr result) \<Rightarrow> Some (Inr result))"

subsection \<open>The placement check in the words of the specification\<close>

text \<open>
  These definitions say what the specification says, independently of the loops above,
  with the arithmetic of the program: an edge is crossed by the horizontal ray to the
  right of a point; a point is inside when the number of crossed edges is odd; a footprint
  is inside when its centre and four corners are; the candidates are the positions that
  repeated addition of 5 reaches from the corner of the bounding box inset by half the
  antenna side, as long as they stay within the box inset on the far side.
\<close>

definition spec_crosses :: "'f float_ops \<Rightarrow> 'f vertex list \<Rightarrow> 'f \<Rightarrow> 'f \<Rightarrow> edge \<Rightarrow> bool" where
  "spec_crosses ops vs px py e \<longleftrightarrow>
     2 \<le> length e \<and> e ! 0 < length vs \<and> e ! 1 < length vs \<and>
     (let x1 = vs ! (e ! 0) ! 0; y1 = vs ! (e ! 0) ! 1;
          x2 = vs ! (e ! 1) ! 0; y2 = vs ! (e ! 1) ! 1
      in fgt ops y1 py \<noteq> fgt ops y2 py \<and>
         flt ops px
           (fadd ops x1
              (fdiv ops (fmul ops (fsub ops x2 x1) (fsub ops py y1)) (fsub ops y2 y1))))"

definition spec_crossings :: "'f float_ops \<Rightarrow> 'f Geometry \<Rightarrow> 'f \<Rightarrow> 'f \<Rightarrow> nat" where
  "spec_crossings ops g px py =
     length (filter (spec_crosses ops (vertices g) px py) (edges g))"

definition spec_inside :: "'f float_ops \<Rightarrow> 'f Geometry \<Rightarrow> 'f \<Rightarrow> 'f \<Rightarrow> bool" where
  "spec_inside ops g px py \<longleftrightarrow> odd (spec_crossings ops g px py)"

text \<open>Half the antenna side, \<^verbatim>\<open>25 / 2\<close>, and one step of the grid, \<^verbatim>\<open>+ 5\<close>.\<close>

definition half_side :: "'f float_ops \<Rightarrow> 'f" where
  "half_side ops = fdiv ops (float_of_int ops 25) (float_of_int ops 2)"

definition step5 :: "'f float_ops \<Rightarrow> 'f \<Rightarrow> 'f" where
  "step5 ops x = fadd ops x (float_of_int ops 5)"

definition spec_footprint_inside :: "'f float_ops \<Rightarrow> 'f Geometry \<Rightarrow> 'f \<Rightarrow> 'f \<Rightarrow> bool" where
  "spec_footprint_inside ops g x y \<longleftrightarrow>
     spec_inside ops g x y \<and>
     spec_inside ops g (fsub ops x (half_side ops)) (fsub ops y (half_side ops)) \<and>
     spec_inside ops g (fadd ops x (half_side ops)) (fsub ops y (half_side ops)) \<and>
     spec_inside ops g (fsub ops x (half_side ops)) (fadd ops y (half_side ops)) \<and>
     spec_inside ops g (fadd ops x (half_side ops)) (fadd ops y (half_side ops))"

text \<open>The bounding box: \<^verbatim>\<open>min\<close> and \<^verbatim>\<open>max\<close> of the x and y coordinates over the vertices
  (of a non-empty vertex list whose vertices have two coordinates), and their
  differences.\<close>

definition bbox_min_x :: "'f float_ops \<Rightarrow> 'f Geometry \<Rightarrow> 'f" where
  "bbox_min_x ops g = py_min ops (map (\<lambda>v. v ! 0) (vertices g))"

definition bbox_max_x :: "'f float_ops \<Rightarrow> 'f Geometry \<Rightarrow> 'f" where
  "bbox_max_x ops g = py_max ops (map (\<lambda>v. v ! 0) (vertices g))"

definition bbox_min_y :: "'f float_ops \<Rightarrow> 'f Geometry \<Rightarrow> 'f" where
  "bbox_min_y ops g = py_min ops (map (\<lambda>v. v ! 1) (vertices g))"

definition bbox_max_y :: "'f float_ops \<Rightarrow> 'f Geometry \<Rightarrow> 'f" where
  "bbox_max_y ops g = py_max ops (map (\<lambda>v. v ! 1) (vertices g))"

definition bbox_width :: "'f float_ops \<Rightarrow> 'f Geometry \<Rightarrow> 'f" where
  "bbox_width ops g = fsub ops (bbox_max_x ops g) (bbox_min_x ops g)"

definition bbox_height :: "'f float_ops \<Rightarrow> 'f Geometry \<Rightarrow> 'f" where
  "bbox_height ops g = fsub ops (bbox_max_y ops g) (bbox_min_y ops g)"

text \<open>The size check fails when the width or the height is \<^verbatim>\<open><\<close> 25.\<close>

definition too_small :: "'f float_ops \<Rightarrow> 'f Geometry \<Rightarrow> bool" where
  "too_small ops g \<longleftrightarrow>
     flt ops (bbox_width ops g) (float_of_int ops 25)
     \<or> flt ops (bbox_height ops g) (float_of_int ops 25)"

text \<open>
  The candidate centres: column \<open>i\<close> is \<open>i\<close> steps from \<^verbatim>\<open>min_x + 12.5\<close>, row \<open>j\<close> is \<open>j\<close>
  steps from \<^verbatim>\<open>min_y + 12.5\<close>. A column is within the box when it is \<^verbatim>\<open><=\<close>
  \<^verbatim>\<open>max_x - 12.5\<close>, and the sweep of a row reaches column \<open>i\<close> when the columns up to \<open>i\<close>
  are all within the box; the same for rows.
\<close>

definition candidate_x :: "'f float_ops \<Rightarrow> 'f Geometry \<Rightarrow> nat \<Rightarrow> 'f" where
  "candidate_x ops g i = (step5 ops ^^ i) (fadd ops (bbox_min_x ops g) (half_side ops))"

definition candidate_y :: "'f float_ops \<Rightarrow> 'f Geometry \<Rightarrow> nat \<Rightarrow> 'f" where
  "candidate_y ops g j = (step5 ops ^^ j) (fadd ops (bbox_min_y ops g) (half_side ops))"

definition within_x :: "'f float_ops \<Rightarrow> 'f Geometry \<Rightarrow> 'f \<Rightarrow> bool" where
  "within_x ops g x \<longleftrightarrow> fle ops x (fsub ops (bbox_max_x ops g) (half_side ops))"

definition within_y :: "'f float_ops \<Rightarrow> 'f Geometry \<Rightarrow> 'f \<Rightarrow> bool" where
  "within_y ops g y \<longleftrightarrow> fle ops y (fsub ops (bbox_max_y ops g) (half_side ops))"





text \<open>Every vertex has at least its x and y coordinate; without that, reading the
  coordinates raises.\<close>

definition well_formed_vertices :: "'f Geometry \<Rightarrow> bool" where
  "well_formed_vertices g \<longleftrightarrow> list_all (\<lambda>v. 2 \<le> length v) (vertices g)"

text \<open>
  A loop that starts at \<open>x\<close>, tests \<open>found\<close> at the current position while it is
  \<open>in_box\<close>, and moves on by \<open>step\<close> when the test fails: \<open>stops_at \<dots> x n b\<close> says
  that it stops at its \<open>n\<close>-th position with answer \<open>b\<close>, either because the test
  succeeded there (answer true) or because that position is outside (answer false). A
  test that does not return is \<open>None\<close>. \<open>row_found\<close> is the test of the outer loop, the
  sweep of one row.
\<close>

definition stops_at ::
  "('f \<Rightarrow> 'f) \<Rightarrow> ('f \<Rightarrow> bool) \<Rightarrow> ('f \<Rightarrow> bool option) \<Rightarrow> 'f \<Rightarrow> nat \<Rightarrow> bool \<Rightarrow> bool" where
  "stops_at step in_box found x n b \<longleftrightarrow>
     (\<forall>k<n. in_box ((step ^^ k) x) \<and> found ((step ^^ k) x) = Some False) \<and>
     (if in_box ((step ^^ n) x) then found ((step ^^ n) x) = Some True \<and> b else \<not> b)"

definition row_found ::
  "'f float_ops \<Rightarrow> 'f Geometry \<Rightarrow> 'f \<Rightarrow> 'f \<Rightarrow> 'f \<Rightarrow> 'f \<Rightarrow> bool option" where
  "row_found ops g half_antenna min_x max_x y =
     (case x_loop ops g half_antenna max_x y (fadd ops min_x half_antenna) of
        Some (Inr found) \<Rightarrow> Some found
      | _ \<Rightarrow> None)"

subsection \<open>A validation run as a function of the geometry\<close>

text \<open>
  \<open>extend a ms\<close> appends the messages \<open>ms\<close> to the list at \<open>a\<close>. \<open>size_outcome\<close> is what
  \<^verbatim>\<open>_check_minimum_size\<close> does, told without the store: the messages it appends, the
  exception it raises, or \<open>None\<close> when it does not return. The three advisory checks
  append the messages below. All of these depend on the geometry only.
\<close>

definition extend :: "addr \<Rightarrow> 'f message list \<Rightarrow> 'f heap \<Rightarrow> 'f heap" where
  "extend a ms h = h\<lparr>cells := (cells h)(a := cells h a @ ms)\<rparr>"

definition empty_messages :: "'f Geometry \<Rightarrow> 'f message list" where
  "empty_messages g = (if vertices g = [] then [Geometry_is_empty] else [])"

definition size_outcome :: "'f float_ops \<Rightarrow> 'f Geometry \<Rightarrow> (py_error + 'f message list) option" where
  "size_outcome ops g =
     (if vertices g = [] then Some (Inr [])
      else if \<not> well_formed_vertices g then Some (Inl IndexError)
      else if too_small ops g then
        Some (Inr [Bounding_box_too_small (bbox_width ops g) (bbox_height ops g) 25])
      else if edges g = [] then Some (Inr [])
      else
        (case test_antenna_fit ops g 25 (bbox_min_x ops g) (bbox_max_x ops g)
                (bbox_min_y ops g) (bbox_max_y ops g) of
           None \<Rightarrow> None
         | Some (Inl err) \<Rightarrow> Some (Inl err)
         | Some (Inr can_fit) \<Rightarrow>
             Some (Inr (if can_fit then []
                        else [Cannot_accommodate 25 (bbox_width ops g) (bbox_height ops g)]))))"

definition planar_messages :: "'f float_ops \<Rightarrow> 'f Geometry \<Rightarrow> 'f message list" where
  "planar_messages ops g =
     (if vertices g = [] then []
      else if fgt ops (fsub ops (py_max ops (z_coords ops (vertices g)))
                         (py_min ops (z_coords ops (vertices g))))
                (float_of_int ops 5)
        then [Z_axis_variation (fsub ops (py_max ops (z_coords ops (vertices g)))
                                  (py_min ops (z_coords ops (vertices g))))]
      else [])"

definition closed_messages :: "'f Geometry \<Rightarrow> 'f message list" where
  "closed_messages g =
     (if edges g = [] then (if faces g \<noteq> [] then [] else [No_edges_or_faces])
      else
        let open_vertices =
              map fst (filter (\<lambda>(v, count). count mod 2 \<noteq> 0) (build_edge_count (edges g)))
        in if open_vertices \<noteq> [] \<and> length open_vertices > 2
           then [Open_boundary_vertices (length open_vertices)] else [])"

definition intersection_messages :: "'f Geometry \<Rightarrow> 'f message list" where
  "intersection_messages g = (if length (edges g) > 100 then [Complex_geometry] else [])"

definition expected_warnings :: "'f Geometry \<Rightarrow> 'f message list" where
  "expected_warnings g = closed_messages g"

definition expected_suggestions :: "'f float_ops \<Rightarrow> 'f Geometry \<Rightarrow> 'f message list" where
  "expected_suggestions ops g = planar_messages ops g @ intersection_messages g"

text \<open>The store after one run of \<^verbatim>\<open>is_valid\<close> in which the size check appended \<open>ms\<close>.\<close>

definition run_result ::
  "'f float_ops \<Rightarrow> 'f GNDValidator \<Rightarrow> 'f message list \<Rightarrow> 'f heap \<Rightarrow> 'f heap" where
  "run_result ops self ms h =
     extend (suggestions self) (expected_suggestions ops (geometry self))
       (extend (warnings self) (expected_warnings (geometry self))
          (extend (errors self) (empty_messages (geometry self) @ ms) h))"

subsection \<open>Deduplication in the words of the specification\<close>

text \<open>
  \<open>same k x\<close> says that the key of the kept item \<open>k\<close> equals the key of \<open>x\<close>.
  \<open>first_seen same xs\<close> keeps, in order, every item of \<open>xs\<close> that no item kept before it
  equals; \<open>index_in same kept x\<close> is the position of the first kept item equal to \<open>x\<close>,
  that is the number of distinct items discovered before \<open>x\<close> was.
\<close>

definition first_seen :: "('a \<Rightarrow> 'a \<Rightarrow> bool) \<Rightarrow> 'a list \<Rightarrow> 'a list" where
  "first_seen same xs =
     fold (\<lambda>x kept. if list_ex (\<lambda>k. same k x) kept then kept else kept @ [x]) xs []"

definition index_in :: "('a \<Rightarrow> 'a \<Rightarrow> bool) \<Rightarrow> 'a list \<Rightarrow> 'a \<Rightarrow> nat" where
  "index_in same kept x = length (takeWhile (\<lambda>k. \<not> same k x) kept)"

text \<open>The key of a point given to \<^verbatim>\<open>add_vertex\<close>, or the exception that computing it
  raises; the vertex stored for a point; two points have the same key.\<close>

definition point_key :: "'f float_ops \<Rightarrow> 'f point \<Rightarrow> py_error + 'f point" where
  "point_key ops p = (case p of (x, y, z) \<Rightarrow> vertex_key ops x y z)"

definition vertex_of :: "'f point \<Rightarrow> 'f vertex" where
  "vertex_of p = (case p of (x, y, z) \<Rightarrow> [x, y, z])"

definition same_key :: "'f float_ops \<Rightarrow> 'f point \<Rightarrow> 'f point \<Rightarrow> bool" where
  "same_key ops p q \<longleftrightarrow> point_key ops p = point_key ops q"

text \<open>The first exception among the key computations of a list of points, if any.\<close>

fun key_error :: "'f float_ops \<Rightarrow> 'f point list \<Rightarrow> py_error option" where
  "key_error ops [] = None"
| "key_error ops (p # ps) =
     (case point_key ops p of Inl err \<Rightarrow> Some err | Inr k \<Rightarrow> key_error ops ps)"

text \<open>The points an entity passes to \<^verbatim>\<open>add_vertex\<close>, in the order of the calls.\<close>

fun entity_points :: "'f float_ops \<Rightarrow> 'f entity \<Rightarrow> 'f point list" where
  "entity_points ops (LINE p1 p2) = [p1, p2]"
| "entity_points ops (LWPOLYLINE pts is_closed) = map (\<lambda>(x, y). (x, y, float_of_int ops 0)) pts"
| "entity_points ops (POLYLINE points is_closed) = points"
| "entity_points ops (FACE3D vtx0 vtx1 vtx2) = [vtx0, vtx1, vtx2]"
| "entity_points ops (CIRCLE center radius) = circle_points ops center radius"
| "entity_points ops (OTHER t) = []"

definition document_points :: "'f float_ops \<Rightarrow> 'f entity list \<Rightarrow> 'f point list" where
  "document_points ops es = concat (map (entity_points ops) es)"

text \<open>The edges and faces an entity contributes, given the indices of its points.\<close>

fun indices_edges :: "'f entity \<Rightarrow> nat list \<Rightarrow> edge list" where
  "indices_edges (LINE p1 p2) indices = [[indices ! 0, indices ! 1]]"
| "indices_edges (LWPOLYLINE pts is_closed) indices = polyline_edges indices is_closed"
| "indices_edges (POLYLINE points is_closed) indices = polyline_edges indices is_closed"
| "indices_edges (FACE3D vtx0 vtx1 vtx2) indices = []"
| "indices_edges (CIRCLE center radius) indices = circle_edges indices"
| "indices_edges (OTHER t) indices = []"

fun indices_faces :: "'f entity \<Rightarrow> nat list \<Rightarrow> face list" where
  "indices_faces (FACE3D vtx0 vtx1 vtx2) indices = [indices]"
| "indices_faces e indices = []"

definition entity_edges :: "'f float_ops \<Rightarrow> ('f point \<Rightarrow> nat) \<Rightarrow> 'f entity \<Rightarrow> edge list" where
  "entity_edges ops idx e = indices_edges e (map idx (entity_points ops e))"

definition entity_faces :: "'f float_ops \<Rightarrow> ('f point \<Rightarrow> nat) \<Rightarrow> 'f entity \<Rightarrow> face list" where
  "entity_faces ops idx e = indices_faces e (map idx (entity_points ops e))"

text \<open>The geometry of a list of entities under first-seen numbering of the snapped
  keys, and what the DXF parser is specified to return for a document.\<close>

definition spec_dxf :: "'f float_ops \<Rightarrow> 'f entity list \<Rightarrow> 'f Geometry" where
  "spec_dxf ops es =
     (let kept = first_seen (same_key ops) (document_points ops es);
          idx = index_in (same_key ops) kept
      in \<lparr>vertices = map vertex_of kept,
          faces = concat (map (entity_faces ops idx) es),
          edges = concat (map (entity_edges ops idx) es),
          metadata = []\<rparr>)"

definition spec_parse_dxf_document ::
  "'f float_ops \<Rightarrow> 'f dxf_document \<Rightarrow> py_error + 'f Geometry" where
  "spec_parse_dxf_document ops doc =
     (case key_error ops (document_points ops (entities doc)) of
        Some err \<Rightarrow> Inl err
      | None \<Rightarrow>
          Inr ((spec_dxf ops (entities doc))
                 \<lparr>metadata := [(''units'', Text ''mm''), (''source'', Text ''DXF''),
                               (''layer_count'', Count (layers doc)),
                               (''entity_count'', Count (length (entities doc)))]\<rparr>))"

text \<open>The same for the STL parser, whose key is the tuple of the coordinates.\<close>

definition spec_stl :: "'f float_ops \<Rightarrow> 'f triangle list \<Rightarrow> 'f Geometry" where
  "spec_stl ops ts =
     (let kept = first_seen (tuple_eq ops) (concat ts)
      in \<lparr>vertices = kept,
          faces = map (map (index_in (tuple_eq ops) kept)) ts,
          edges = [],
          metadata = [(''units'', Text ''mm''), (''source'', Text ''STL''),
                      (''triangle_count'', Count (length ts)),
                      (''unique_vertices'', Count (length kept))]\<rparr>)"

text \<open>The states of the two parsers after the points \<open>ps\<close>, or the vertices \<open>vs\<close>, have
  gone through deduplication, in this order.\<close>

definition dxf_inv :: "'f float_ops \<Rightarrow> 'f point list \<Rightarrow> 'f dxf_state \<Rightarrow> bool" where
  "dxf_inv ops ps s \<longleftrightarrow>
     key_error ops ps = None \<and>
     vertices (geom s) = map vertex_of (first_seen (same_key ops) ps) \<and>
     vertex_map s =
       zip (map (\<lambda>p. projr (point_key ops p)) (first_seen (same_key ops) ps))
           [0..<length (first_seen (same_key ops) ps)]"

definition stl_inv :: "'f float_ops \<Rightarrow> 'f vertex list \<Rightarrow> 'f stl_state \<Rightarrow> bool" where
  "stl_inv ops vs s \<longleftrightarrow>
     vertices (stl_geom s) = first_seen (tuple_eq ops) vs \<and>
     stl_vertex_map s =
       zip (first_seen (tuple_eq ops) vs) [0..<length (first_seen (tuple_eq ops) vs)]"

subsection \<open>Exact arithmetic, and example inputs\<close>

text \<open>
  The operations on the real numbers, without rounding. They are used for the examples
  only, whose coordinates are chosen so that double arithmetic gives the same comparisons
  and indices. Python's \<^verbatim>\<open>round\<close> on a float goes to the nearest integer, halves to the
  even one.
\<close>

definition py_round :: "real \<Rightarrow> int" where
  "py_round x =
     (let f = \<lfloor>x\<rfloor>; d = x - of_int f in
      if d < 1 / 2 then f
      else if d > 1 / 2 then f + 1
      else if even f then f else f + 1)"

definition exact_ops :: "real float_ops" where
  "exact_ops =
     \<lparr>fadd = (+), fsub = (-), fmul = (*), fdiv = (/),
      flt = (<), fle = (\<le>), fgt = (>), feq = (=),
      float_of_int = of_int, fround = (\<lambda>x. Inr (py_round x)),
      fcos = cos, fsin = sin, fpi = pi, f1e_6 = 1 / 1000000\<rparr>"

text \<open>A closed square boundary of side \<open>s\<close>; a VBScript file; a DXF file holding the closed
  square of side 40 as one lightweight polyline.\<close>

definition square_geometry :: "real \<Rightarrow> real Geometry" where
  "square_geometry s =
     \<lparr>vertices = [[0, 0, 0], [s, 0, 0], [s, s, 0], [0, s, 0]],
      faces = [],
      edges = [[0, 1], [1, 2], [2, 3], [3, 0]],
      metadata = []\<rparr>"

definition vbs_file :: "real source_file" where
  "vbs_file =
     \<lparr>suffix = ''.VBS'', path_str = ''ground.VBS'',
      dxf_read = Inl (OSError ''not a DXF file''),
      stl_read = Inl (OSError ''not an STL file''),
      text_read = Inr ''Dim oAnsoftApp'',
      numpy_import = Inr ()\<rparr>"

definition square_dxf_file :: "real source_file" where
  "square_dxf_file =
     \<lparr>suffix = ''.dxf'', path_str = ''square.dxf'',
      dxf_read = Inr \<lparr>entities = [LWPOLYLINE [(0, 0), (40, 0), (40, 40), (0, 40)] True],
                      layers = 1\<rparr>,
      stl_read = Inl (OSError ''not an STL file''),
      text_read = Inl (OSError ''not a text file''),
      numpy_import = Inr ()\<rparr>"

definition two_triangles_stl_file :: "real source_file" where
  "two_triangles_stl_file =
     \<lparr>suffix = ''.stl'', path_str = ''plate.stl'',
      dxf_read = Inl (OSError ''not a DXF file''),
      stl_read = Inr [[[0, 0, 0], [1, 0, 0], [0, 1, 0]], [[1, 0, 0], [0, 1, 0], [1, 1, 0]]],
      text_read = Inl (OSError ''not a text file''),
      numpy_import = Inr ()\<rparr>"

section \<open>Properties\<close>

subsection \<open>The store and the advisory checks\<close>

lemma cells_list_append:
  "cells (list_append a m h) b = (if b = a then cells h a @ [m] else cells h b)"
  by (simp add: list_append_def)

lemma distinct_lists_init:
  "GNDValidator_init g h = (self, h') \<Longrightarrow> distinct_lists self"
  by (auto simp: GNDValidator_init_def distinct_lists_def Let_def)

lemma planar_keeps_errors:
  "distinct_lists self \<Longrightarrow>
     cells (check_planar_geometry ops self h) (errors self) = cells h (errors self)"
  by (simp add: check_planar_geometry_def distinct_lists_def cells_list_append Let_def)

lemma closed_keeps_errors:
  "distinct_lists self \<Longrightarrow>
     cells (check_closed_boundaries self h) (errors self) = cells h (errors self)"
  by (simp add: check_closed_boundaries_def distinct_lists_def cells_list_append Let_def)

lemma intersections_keeps_errors:
  "distinct_lists self \<Longrightarrow>
     cells (check_self_intersections self h) (errors self) = cells h (errors self)"
  by (simp add: check_self_intersections_def distinct_lists_def cells_list_append)

lemma extend_Nil [simp]: "extend a [] h = h"
  by (simp add: extend_def)

lemma extend_single: "list_append a m h = extend a [m] h"
  by (simp add: extend_def list_append_def)

lemma cells_extend:
  "cells (extend a ms h) b = (if b = a then cells h a @ ms else cells h b)"
  by (simp add: extend_def)

lemma next_free_extend [simp]: "next_free (extend a ms h) = next_free h"
  by (simp add: extend_def)

subsection \<open>Reading the coordinates\<close>

lemma coords_map:
  "list_all (\<lambda>v. i < length v) vs \<Longrightarrow> coords i vs = Inr (map (\<lambda>v. v ! i) vs)"
  by (induction vs) (simp_all add: item_def)

lemma coords_Inl:
  "\<not> list_all (\<lambda>v. i < length v) vs \<Longrightarrow> coords i vs = Inl IndexError"
  by (induction vs) (auto simp: item_def split: sum.splits)

lemma well_formed_coords:
  assumes "well_formed_vertices g"
  shows "coords 0 (vertices g) = Inr (map (\<lambda>v. v ! 0) (vertices g))"
    and "coords (Suc 0) (vertices g) = Inr (map (\<lambda>v. v ! 1) (vertices g))"
proof -
  have "list_all (\<lambda>v. 0 < length v) (vertices g)" "list_all (\<lambda>v. Suc 0 < length v) (vertices g)"
    using assms by (auto simp: well_formed_vertices_def list_all_iff)
  then show "coords 0 (vertices g) = Inr (map (\<lambda>v. v ! 0) (vertices g))"
    and "coords (Suc 0) (vertices g) = Inr (map (\<lambda>v. v ! 1) (vertices g))"
    by (simp_all add: coords_map)
qed

lemma ill_formed_coords:
  assumes "\<not> well_formed_vertices g"
  shows "coords 0 (vertices g) = Inl IndexError
     \<or> (\<exists>xs. coords 0 (vertices g) = Inr xs) \<and> coords (Suc 0) (vertices g) = Inl IndexError"
proof (cases "list_all (\<lambda>v. 0 < length v) (vertices g)")
  case True
  have "\<not> list_all (\<lambda>v. Suc 0 < length v) (vertices g)"
    using assms
    by (auto simp: well_formed_vertices_def list_all_iff Suc_le_eq [symmetric] numeral_2_eq_2)
  then show ?thesis using True by (simp add: coords_map coords_Inl)
next
  case False
  then show ?thesis by (simp add: coords_Inl)
qed

subsection \<open>A validation run is determined by the geometry\<close>

lemma check_empty_extend:
  "check_empty_geometry self h = extend (errors self) (empty_messages (geometry self)) h"
  by (simp add: check_empty_geometry_def empty_messages_def extend_single)

lemma check_minimum_size_outcome:
  "check_minimum_size ops self h =
     (case size_outcome ops (geometry self) of
        None \<Rightarrow> None
      | Some (Inl err) \<Rightarrow> Some (Inl err)
      | Some (Inr ms) \<Rightarrow> Some (Inr (extend (errors self) ms h)))"
proof (cases "vertices (geometry self) = []")
  case True
  then show ?thesis by (simp add: check_minimum_size_def size_outcome_def)
next
  case ne: False
  show ?thesis
  proof (cases "well_formed_vertices (geometry self)")
    case True
    note c = well_formed_coords [OF True]
    show ?thesis
      using ne True
      by (simp add: check_minimum_size_def size_outcome_def c Let_def too_small_def
          bbox_width_def bbox_height_def bbox_min_x_def bbox_max_x_def bbox_min_y_def
          bbox_max_y_def extend_single split: option.splits sum.splits)
  next
    case False
    from ill_formed_coords [OF False] show ?thesis
      using ne False by (auto simp: check_minimum_size_def size_outcome_def)
  qed
qed

lemma check_planar_extend:
  "check_planar_geometry ops self h
     = extend (suggestions self) (planar_messages ops (geometry self)) h"
  by (simp add: check_planar_geometry_def planar_messages_def extend_single Let_def)

lemma check_closed_extend:
  "check_closed_boundaries self h = extend (warnings self) (closed_messages (geometry self)) h"
  by (simp add: check_closed_boundaries_def closed_messages_def extend_single Let_def)

lemma check_intersections_extend:
  "check_self_intersections self h
     = extend (suggestions self) (intersection_messages (geometry self)) h"
  by (simp add: check_self_intersections_def intersection_messages_def extend_single)

lemma cells_run_result:
  assumes "distinct_lists v"
  shows "cells (run_result ops v ms h) (errors v)
           = cells h (errors v) @ empty_messages (geometry v) @ ms"
    and "cells (run_result ops v ms h) (warnings v)
           = cells h (warnings v) @ expected_warnings (geometry v)"
    and "cells (run_result ops v ms h) (suggestions v)
           = cells h (suggestions v) @ expected_suggestions ops (geometry v)"
    and "\<And>a. a \<noteq> errors v \<Longrightarrow> a \<noteq> warnings v \<Longrightarrow> a \<noteq> suggestions v
           \<Longrightarrow> cells (run_result ops v ms h) a = cells h a"
    and "next_free (run_result ops v ms h) = next_free h"
  using assms by (simp_all add: run_result_def cells_extend distinct_lists_def)

lemma advisory_run:
  assumes d: "distinct_lists self"
  shows "check_self_intersections self (check_closed_boundaries self
        (check_planar_geometry ops self
          (extend (errors self) ms (check_empty_geometry self h))))
      = run_result ops self ms h"
  using d
  by (auto simp: check_empty_extend check_planar_extend check_closed_extend
      check_intersections_extend extend_def run_result_def expected_warnings_def
      expected_suggestions_def distinct_lists_def fun_eq_iff
      intro!: heap.equality)

lemma is_valid_run:
  assumes d: "distinct_lists self"
  shows "is_valid ops self h =
     (case size_outcome ops (geometry self) of
        None \<Rightarrow> None
      | Some (Inl err) \<Rightarrow> Some (Inl err)
      | Some (Inr ms) \<Rightarrow>
          Some (Inr (cells h (errors self) @ empty_messages (geometry self) @ ms = [],
                     run_result ops self ms h)))"
  unfolding is_valid_def Let_def check_minimum_size_outcome
  by (simp add: advisory_run [OF d] cells_run_result(1) [OF d] split: option.splits sum.splits)

lemma get_report_run:
  assumes d: "distinct_lists self"
  shows "get_report ops self h =
     (case size_outcome ops (geometry self) of
        None \<Rightarrow> None
      | Some (Inl err) \<Rightarrow> Some (Inl err)
      | Some (Inr ms) \<Rightarrow>
          Some (Inr (\<lparr>valid = (cells h (errors self) @ empty_messages (geometry self) @ ms = []),
                      errors_ref = errors self, warnings_ref = warnings self,
                      suggestions_ref = suggestions self\<rparr>,
                     run_result ops self ms h)))"
  by (simp add: get_report_def is_valid_run [OF d] split: option.splits sum.splits)

lemma init_shape:
  assumes "GNDValidator_init g h = (v, h')"
  shows "geometry v = g" "errors v = next_free h" "warnings v = next_free h + 1"
    "suggestions v = next_free h + 2" "next_free h' = next_free h + 3"
    "cells h' (errors v) = []" "cells h' (warnings v) = []" "cells h' (suggestions v) = []"
    "\<And>a. a < next_free h \<Longrightarrow> cells h' a = cells h a"
  using assms by (auto simp: GNDValidator_init_def Let_def)

lemma validate_run:
  "validate ops g =
     (case size_outcome ops g of
        None \<Rightarrow> None
      | Some (Inl err) \<Rightarrow> Some (Inl err)
      | Some (Inr ms) \<Rightarrow>
          Some (Inr \<lparr>view_valid = (empty_messages g @ ms = []),
                     view_errors = empty_messages g @ ms,
                     view_warnings = expected_warnings g,
                     view_suggestions = expected_suggestions ops g\<rparr>))"
proof -
  obtain self h where init: "GNDValidator_init g empty_heap = (self, h)"
    by (cases "GNDValidator_init g empty_heap")
  have d: "distinct_lists self" using init by (rule distinct_lists_init)
  note s = init_shape(1,6,7,8) [OF init]
  note c = cells_run_result(1,2,3) [OF d, where h = h and ops = ops]
  show ?thesis
    unfolding validate_def init
    by (simp add: get_report_run [OF d] read_report_def c s
        split: option.splits sum.splits)
qed

lemma get_report_valid_iff:
  "get_report ops self h = Some (Inr (r, h')) \<Longrightarrow> valid r = (cells h' (errors_ref r) = [])"
  by (auto simp: get_report_def is_valid_def Let_def split: option.splits sum.splits)

lemma validate_valid_iff:
  "validate ops g = Some (Inr v) \<Longrightarrow> view_valid v = (view_errors v = [])"
  by (auto simp: validate_run split: option.splits sum.splits)

subsection \<open>The square examples\<close>

text \<open>The square with any metadata, as a parser returns it.\<close>

lemma square_well_formed_meta: "well_formed_vertices ((square_geometry s)\<lparr>metadata := m\<rparr>)"
  by (simp add: well_formed_vertices_def square_geometry_def)

lemma square_bbox_meta:
  assumes "0 \<le> s"
  shows "bbox_min_x exact_ops ((square_geometry s)\<lparr>metadata := m\<rparr>) = 0"
    "bbox_max_x exact_ops ((square_geometry s)\<lparr>metadata := m\<rparr>) = s"
    "bbox_min_y exact_ops ((square_geometry s)\<lparr>metadata := m\<rparr>) = 0"
    "bbox_max_y exact_ops ((square_geometry s)\<lparr>metadata := m\<rparr>) = s"
    "bbox_width exact_ops ((square_geometry s)\<lparr>metadata := m\<rparr>) = s"
    "bbox_height exact_ops ((square_geometry s)\<lparr>metadata := m\<rparr>) = s"
  using assms
  by (simp_all add: bbox_width_def bbox_height_def bbox_min_x_def bbox_max_x_def
      bbox_min_y_def bbox_max_y_def square_geometry_def py_min_def py_max_def exact_ops_def)

lemma square_meta_Nil: "(square_geometry s)\<lparr>metadata := []\<rparr> = square_geometry s"
  by (simp add: square_geometry_def)

lemmas square_well_formed = square_well_formed_meta [where m = "[]", unfolded square_meta_Nil]
lemmas square_bbox = square_bbox_meta [where m = "[]", unfolded square_meta_Nil]

lemma square20_outcome:
  "size_outcome exact_ops (square_geometry 20) = Some (Inr [Bounding_box_too_small 20 20 25])"
proof -
  have "vertices (square_geometry 20) \<noteq> []" by (simp add: square_geometry_def)
  moreover have "too_small exact_ops (square_geometry 20)"
    by (simp add: too_small_def square_bbox) (simp add: exact_ops_def)
  ultimately show ?thesis
    by (simp add: size_outcome_def square_well_formed square_bbox)
qed

lemma square40_inside:
  "point_in_polygon exact_ops ((square_geometry 40)\<lparr>metadata := m\<rparr>) (25 / 2) (25 / 2) = Inr True"
  "point_in_polygon exact_ops ((square_geometry 40)\<lparr>metadata := m\<rparr>) 0 0 = Inr True"
  "point_in_polygon exact_ops ((square_geometry 40)\<lparr>metadata := m\<rparr>) 25 0 = Inr True"
  "point_in_polygon exact_ops ((square_geometry 40)\<lparr>metadata := m\<rparr>) 0 25 = Inr True"
  "point_in_polygon exact_ops ((square_geometry 40)\<lparr>metadata := m\<rparr>) 25 25 = Inr True"
  by (simp_all add: point_in_polygon_def square_geometry_def edge_step_def item_def
      exact_ops_def Let_def)

lemma square40_fit_meta:
  "test_antenna_fit exact_ops ((square_geometry 40)\<lparr>metadata := m\<rparr>) 25 0 40 0 40
     = Some (Inr True)"
proof -
  let ?g = "(square_geometry 40)\<lparr>metadata := m\<rparr>"
  have h: "fdiv exact_ops (float_of_int exact_ops 25) (float_of_int exact_ops 2) = 25 / 2"
    by (simp add: exact_ops_def)
  have p: "test_points exact_ops (25 / 2) (25 / 2) (25 / 2)
      = [(25 / 2, 25 / 2), (0, 0), (25, 0), (0, 25), (25, 25)]"
    by (simp add: test_points_def exact_ops_def)
  have a: "all_in_polygon exact_ops ?g
      (test_points exact_ops (25 / 2) (25 / 2) (25 / 2)) = Inr True"
    by (simp add: p square40_inside)
  have s: "fadd exact_ops 0 (25 / 2) = 25 / 2"
    "fle exact_ops (25 / 2) (fsub exact_ops 40 (25 / 2))"
    by (simp_all add: exact_ops_def)
  have x: "x_loop exact_ops ?g (25 / 2) 40 (25 / 2) (25 / 2) = Some (Inr True)"
    by (subst x_loop.simps) (simp add: a s)
  have "y_loop exact_ops ?g (25 / 2) 0 40 40 (25 / 2) = Some (Inr True)"
    by (subst y_loop.simps) (simp add: x s)
  then show ?thesis
    by (simp add: test_antenna_fit_def h s)
qed


lemma square40_outcome_meta:
  "size_outcome exact_ops ((square_geometry 40)\<lparr>metadata := m\<rparr>) = Some (Inr [])"
proof -
  let ?g = "(square_geometry 40)\<lparr>metadata := m\<rparr>"
  have "vertices ?g \<noteq> []" "edges ?g \<noteq> []"
    by (simp_all add: square_geometry_def)
  moreover have "\<not> too_small exact_ops ?g"
    by (simp add: too_small_def square_bbox_meta) (simp add: exact_ops_def)
  ultimately show ?thesis
    by (simp add: size_outcome_def square_well_formed_meta square_bbox_meta square40_fit_meta)
qed


subsection \<open>Empty geometry\<close>

lemma empty_geometry_like:
  assumes "vertices g = []"
  shows "\<exists>v. validate ops g = Some (Inr v) \<and> view_errors v = [Geometry_is_empty]
           \<and> \<not> view_valid v"
  using assms by (simp add: validate_run size_outcome_def empty_messages_def)

text \<open>
  Claim C6. For a geometry whose vertex list is empty, a validation run returns a report
  (no check raises), the report's error list is exactly the emptiness error, \<open>valid\<close> is
  false, and \<^verbatim>\<open>calculate_bounds\<close> returns \<^verbatim>\<open>None\<close> instead of failing.
\<close>

theorem empty_geometry_handling:
  "vertices g = [] \<Longrightarrow>
     (\<exists>r. validate ops g = Some (Inr r) \<and> view_errors r = [Geometry_is_empty]
          \<and> \<not> view_valid r)
     \<and> calculate_bounds ops g = Inr None"
proof -
  assume e: "vertices g = []"
  obtain self h where init: "GNDValidator_init g empty_heap = (self, h)"
    by (cases "GNDValidator_init g empty_heap")
  have d: "distinct_lists self" using init by (rule distinct_lists_init)
  have gs: "geometry self = g" and c0: "cells h (errors self) = []"
    using init by (auto simp: GNDValidator_init_def Let_def)
  let ?h1 = "check_empty_geometry self h"
  have h1: "cells ?h1 (errors self) = [Geometry_is_empty]"
    using e gs c0 by (simp add: check_empty_geometry_def cells_list_append)
  have ms: "check_minimum_size ops self ?h1 = Some (Inr ?h1)"
    using e gs by (simp add: check_minimum_size_def)
  let ?h5 = "check_self_intersections self
               (check_closed_boundaries self (check_planar_geometry ops self ?h1))"
  have h5: "cells ?h5 (errors self) = [Geometry_is_empty]"
    using planar_keeps_errors [OF d] closed_keeps_errors [OF d]
      intersections_keeps_errors [OF d] h1 by simp
  have iv: "is_valid ops self h = Some (Inr (False, ?h5))"
    using ms h5 by (simp add: is_valid_def Let_def)
  have "validate ops g = Some (Inr (read_report ?h5
      \<lparr>valid = False, errors_ref = errors self, warnings_ref = warnings self,
       suggestions_ref = suggestions self\<rparr>))"
    using init iv by (simp add: validate_def get_report_def)
  moreover have "calculate_bounds ops g = Inr None"
    using e by (simp add: calculate_bounds_def)
  ultimately show ?thesis
    using h5 by (simp add: read_report_def)
qed

theorem empty_geometry_handling_witness:
  "vertices (Geometry_init :: real Geometry) = [] \<and>
   (\<exists>r. validate exact_ops Geometry_init = Some (Inr r) \<and> view_errors r = [Geometry_is_empty]
        \<and> \<not> view_valid r)
   \<and> calculate_bounds exact_ops Geometry_init = Inr None"
  using empty_geometry_handling [of Geometry_init exact_ops] by (simp add: Geometry_init_def)

subsection \<open>Validity and minimum size\<close>

text \<open>
  Claim C2. Whenever a report is produced, its \<open>valid\<close> field is true exactly when the
  error list it refers to is empty; and the planarity, boundary-closure and complexity
  checks leave the error list as it was, so only the emptiness, minimum-size and
  placement checks append to it.
\<close>

theorem validity_definition:
  "(get_report ops self h = Some (Inr (r, h')) \<longrightarrow> valid r = (cells h' (errors_ref r) = []))
   \<and> (validate ops g = Some (Inr v) \<longrightarrow> view_valid v = (view_errors v = []))
   \<and> (distinct_lists self \<longrightarrow>
        cells (check_planar_geometry ops self h) (errors self) = cells h (errors self)
      \<and> cells (check_closed_boundaries self h) (errors self) = cells h (errors self)
      \<and> cells (check_self_intersections self h) (errors self) = cells h (errors self))"
  using get_report_valid_iff [of ops self h r h'] validate_valid_iff [of ops g v]
    planar_keeps_errors [of self ops h] closed_keeps_errors [of self h]
    intersections_keeps_errors [of self h]
  by blast

theorem validity_definition_witness:
  "(\<exists>r h'. get_report exact_ops \<lparr>geometry = square_geometry 20, errors = 0, warnings = 1,
                 suggestions = 2\<rparr> empty_heap = Some (Inr (r, h'))
        \<and> valid r = (cells h' (errors_ref r) = []))
   \<and> (\<exists>v. validate exact_ops (square_geometry 20) = Some (Inr v)
        \<and> view_valid v = (view_errors v = [])
        \<and> view_errors v = [Bounding_box_too_small 20 20 25])
   \<and> distinct_lists \<lparr>geometry = square_geometry 20, errors = 0, warnings = 1,
        suggestions = 2\<rparr>
   \<and> cells (check_planar_geometry exact_ops \<lparr>geometry = square_geometry 20, errors = 0,
        warnings = 1, suggestions = 2\<rparr> empty_heap) 0 = cells empty_heap 0"
proof -
  let ?g = "square_geometry 20"
  let ?self = "\<lparr>geometry = ?g, errors = 0, warnings = 1, suggestions = 2\<rparr>"
  have d: "distinct_lists ?self" by (simp add: distinct_lists_def)
  have "\<exists>r h'. get_report exact_ops ?self empty_heap = Some (Inr (r, h'))"
    by (subst get_report_run [OF d]) (simp add: square20_outcome)
  then obtain r h' where gr: "get_report exact_ops ?self empty_heap = Some (Inr (r, h'))"
    by blast
  have ne: "vertices ?g \<noteq> []" by (simp add: square_geometry_def)
  have "\<exists>v. validate exact_ops ?g = Some (Inr v)
      \<and> view_errors v = [Bounding_box_too_small 20 20 25]"
    using ne by (simp add: validate_run square20_outcome empty_messages_def)
  then obtain v where v: "validate exact_ops ?g = Some (Inr v)"
      "view_errors v = [Bounding_box_too_small 20 20 25]"
    by blast
  note t = validity_definition [of exact_ops ?self empty_heap r h' ?g v]
  have "valid r = (cells h' (errors_ref r) = [])" using t gr by blast
  moreover have "view_valid v = (view_errors v = [])" using t v by blast
  moreover have "cells (check_planar_geometry exact_ops ?self empty_heap) 0 = cells empty_heap 0"
    using t d by simp
  ultimately show ?thesis using gr v d by blast
qed

text \<open>
  Claim C5. For a non-empty geometry whose bounding box is narrower or lower than the
  25-unit antenna side, the minimum-size check appends the one too-small error, carrying
  the measured width and height and the required side, and returns without running the
  grid search; the error list of the validation run is that single error, so no
  feasibility error stands beside it.
\<close>

theorem minimum_size_terminal:
  assumes "vertices g \<noteq> []" and "well_formed_vertices g"
    and "flt ops (bbox_width ops g) (float_of_int ops 25)
         \<or> flt ops (bbox_height ops g) (float_of_int ops 25)"
  shows "(geometry self = g \<longrightarrow>
            check_minimum_size ops self h
            = Some (Inr (list_append (errors self)
                     (Bounding_box_too_small (bbox_width ops g) (bbox_height ops g) 25) h)))
       \<and> (\<exists>v. validate ops g = Some (Inr v) \<and> \<not> view_valid v
             \<and> view_errors v = [Bounding_box_too_small (bbox_width ops g) (bbox_height ops g) 25])"
proof -
  have o: "size_outcome ops g
      = Some (Inr [Bounding_box_too_small (bbox_width ops g) (bbox_height ops g) 25])"
    using assms by (simp add: size_outcome_def too_small_def)
  have "\<exists>v. validate ops g = Some (Inr v) \<and> \<not> view_valid v
      \<and> view_errors v = [Bounding_box_too_small (bbox_width ops g) (bbox_height ops g) 25]"
    using assms(1) by (simp add: validate_run o empty_messages_def)
  moreover have "check_minimum_size ops self h
      = Some (Inr (list_append (errors self)
               (Bounding_box_too_small (bbox_width ops g) (bbox_height ops g) 25) h))"
    if "geometry self = g"
    using that by (simp add: check_minimum_size_outcome o extend_single)
  ultimately show ?thesis by blast
qed

theorem minimum_size_terminal_witness:
  "vertices (square_geometry 20) \<noteq> [] \<and> well_formed_vertices (square_geometry 20)
   \<and> flt exact_ops (bbox_width exact_ops (square_geometry 20)) (float_of_int exact_ops 25)
   \<and> check_minimum_size exact_ops \<lparr>geometry = square_geometry 20, errors = 0, warnings = 1,
        suggestions = 2\<rparr> empty_heap
      = Some (Inr (list_append 0 (Bounding_box_too_small 20 20 25) empty_heap))
   \<and> (\<exists>v. validate exact_ops (square_geometry 20) = Some (Inr v) \<and> \<not> view_valid v
         \<and> view_errors v = [Bounding_box_too_small 20 20 25])"
proof -
  let ?g = "square_geometry 20"
  have ne: "vertices ?g \<noteq> []" by (simp add: square_geometry_def)
  have wf: "well_formed_vertices ?g" by (rule square_well_formed)
  have small: "flt exact_ops (bbox_width exact_ops ?g) (float_of_int exact_ops 25)"
    by (simp add: square_bbox) (simp add: exact_ops_def)
  then have s: "flt exact_ops (bbox_width exact_ops ?g) (float_of_int exact_ops 25)
      \<or> flt exact_ops (bbox_height exact_ops ?g) (float_of_int exact_ops 25)" by simp
  note t = minimum_size_terminal [OF ne wf s,
      of "\<lparr>geometry = ?g, errors = 0, warnings = 1, suggestions = 2\<rparr>" empty_heap]
  show ?thesis using t ne wf small by (simp add: square_bbox)
qed

subsection \<open>Loader\<close>

lemma load_invalid:
  assumes "parse ops f = Inr g" "validate ops g = Some (Inr v)" "\<not> view_valid v"
  shows "load ops render f =
     Some (Inl (Exception (''Failed to load GND file: '' @ ''Invalid geometry: ''
            @ py_join '', '' (map render (view_errors v)))))"
  using assms by (simp add: load_def load_try_def)

lemma load_success:
  assumes "load ops render f = Some (Inr res)"
  shows "\<exists>g. parse ops f = Inr g \<and> validate ops g = Some (Inr (res_validation res))
            \<and> view_valid (res_validation res) \<and> view_errors (res_validation res) = []
            \<and> res_geometry res = g \<and> calculate_bounds ops g = Inr (res_bounds res)
            \<and> res_vertex_count res = length (vertices g)
            \<and> res_face_count res = length (faces g)
            \<and> res_edge_count res = length (edges g)"
  using assms
  by (auto simp: load_def load_try_def to_dict_def split: sum.splits if_splits option.splits
      dest: validate_valid_iff)

text \<open>
  Claim C3. When the parsed geometry's validation report has \<open>valid\<close> false, \<^verbatim>\<open>load\<close>
  raises; the message of the failure is the loader's prefix followed by the texts of all
  validation errors, in order, joined by a comma and a space; no result record is
  returned. A result record is returned only for a geometry whose report is valid, and it
  carries that geometry, its bounds, its counts and the report.
\<close>

theorem load_fails_on_invalid_geometry:
  "(parse ops f = Inr g \<and> validate ops g = Some (Inr v) \<and> \<not> view_valid v \<longrightarrow>
      load ops render f =
        Some (Inl (Exception (''Failed to load GND file: Invalid geometry: ''
               @ py_join '', '' (map render (view_errors v))))))
   \<and> (load ops render f = Some (Inr res) \<longrightarrow>
        (\<exists>g'. parse ops f = Inr g' \<and> validate ops g' = Some (Inr (res_validation res))
            \<and> view_valid (res_validation res)
            \<and> res_geometry res = g' \<and> calculate_bounds ops g' = Inr (res_bounds res)
            \<and> res_vertex_count res = length (vertices g')
            \<and> res_face_count res = length (faces g')
            \<and> res_edge_count res = length (edges g')))"
  using load_invalid [of ops f g v render] load_success [of ops render f res]
  by auto

lemma vbs_file_format: "map ascii_lower (suffix vbs_file) = ''.vbs''"
  by (simp add: ascii_lower_def vbs_file_def)

lemma square_dxf_file_format: "map ascii_lower (suffix square_dxf_file) = ''.dxf''"
  by (simp add: ascii_lower_def square_dxf_file_def)

lemma parse_vbs_file:
  "parse exact_ops vbs_file =
     Inr (Geometry_init\<lparr>metadata := [(''source'', Text ''HFSS_VBScript''),
            (''script_content'', Text ''Dim oAnsoftApp''),
            (''file_path'', Text ''ground.VBS'')]\<rparr>)"
proof -
  have "parse exact_ops vbs_file = parse_vbscript vbs_file"
    by (simp add: parse_def vbs_file_format)
  then show ?thesis by (simp add: parse_vbscript_def vbs_file_def)
qed

lemma py_round_of_int: "py_round (of_int n) = n"
  by (simp add: py_round_def)

lemma snap_exact_int: "snap exact_ops (of_int n) = Inr (of_int n)"
  using py_round_of_int [of "n * 1000000"] by (simp add: snap_def exact_ops_def)

lemma snap_exact_0: "snap exact_ops 0 = Inr 0"
  using snap_exact_int [of 0] by simp

lemma snap_exact_40: "snap exact_ops 40 = Inr 40"
  using snap_exact_int [of 40] by simp

lemma square_keys:
  "vertex_key exact_ops 0 0 0 = Inr (0, 0, 0)" "vertex_key exact_ops 40 0 0 = Inr (40, 0, 0)"
  "vertex_key exact_ops 40 40 0 = Inr (40, 40, 0)" "vertex_key exact_ops 0 40 0 = Inr (0, 40, 0)"
  by (simp_all add: vertex_key_def snap_exact_0 snap_exact_40)

lemma exact_zero: "float_of_int exact_ops 0 = 0"
  by (simp add: exact_ops_def)

lemma parse_square_dxf:
  "parse exact_ops square_dxf_file =
     Inr ((square_geometry 40)\<lparr>metadata := [(''units'', Text ''mm''), (''source'', Text ''DXF''),
                     (''layer_count'', Count 1), (''entity_count'', Count 1)]\<rparr>)"
proof -
  have "parse exact_ops square_dxf_file = parse_dxf exact_ops square_dxf_file"
    by (simp add: parse_def square_dxf_file_format)
  then show ?thesis
    by (simp add: square_dxf_file_def parse_dxf_def parse_dxf_document_def
      dxf_init_def add_vertex_def square_keys append_edges_def exact_zero
      polyline_edges_def square_geometry_def Geometry_init_def Let_def)
qed

lemma calculate_bounds_total:
  assumes "well_formed_vertices g"
  shows "\<exists>b. calculate_bounds ops g = Inr b"
proof (cases "vertices g = []")
  case True
  then show ?thesis by (simp add: calculate_bounds_def)
next
  case False
  note b = well_formed_coords [OF assms]
  show ?thesis using False by (simp add: calculate_bounds_def b Let_def)
qed

lemma load_square_dxf:
  "\<exists>res. load exact_ops render square_dxf_file = Some (Inr res)
       \<and> view_valid (res_validation res)
       \<and> res_vertex_count res = 4 \<and> res_edge_count res = 4"
proof -
  let ?g = "(square_geometry 40)\<lparr>metadata := [(''units'', Text ''mm''),
      (''source'', Text ''DXF''), (''layer_count'', Count 1), (''entity_count'', Count 1)]\<rparr>"
  have wf: "well_formed_vertices ?g" by (rule square_well_formed_meta)
  have ne: "vertices ?g \<noteq> []" by (simp add: square_geometry_def)
  have "\<exists>v. validate exact_ops ?g = Some (Inr v) \<and> view_valid v"
    using ne by (simp add: validate_run square40_outcome_meta empty_messages_def)
  then obtain v where v: "validate exact_ops ?g = Some (Inr v)" "view_valid v"
    by blast
  obtain b where b: "calculate_bounds exact_ops ?g = Inr b"
    using calculate_bounds_total [OF wf] by blast
  have np: "numpy_import square_dxf_file = Inr ()" by (simp add: square_dxf_file_def)
  show ?thesis
    using v b np
    by (simp add: load_def load_try_def parse_square_dxf to_dict_def)
      (simp add: square_geometry_def)
qed

theorem load_fails_on_invalid_geometry_witness:
  "(\<exists>g v. parse exact_ops vbs_file = Inr g \<and> validate exact_ops g = Some (Inr v)
      \<and> \<not> view_valid v \<and> view_errors v = [Geometry_is_empty]
      \<and> load exact_ops (\<lambda>m. ''Geometry is empty (no vertices found)'') vbs_file
        = Some (Inl (Exception (''Failed to load GND file: Invalid geometry: ''
                 @ ''Geometry is empty (no vertices found)''))))
   \<and> (\<exists>res g'. load exact_ops (\<lambda>m. ''text'') square_dxf_file = Some (Inr res)
        \<and> parse exact_ops square_dxf_file = Inr g'
        \<and> validate exact_ops g' = Some (Inr (res_validation res))
        \<and> view_valid (res_validation res) \<and> res_geometry res = g'
        \<and> res_vertex_count res = 4)"
proof -
  let ?r = "\<lambda>m::real message. ''Geometry is empty (no vertices found)''"
  obtain g where g: "parse exact_ops vbs_file = Inr g" and e: "vertices g = []"
    using parse_vbs_file by (simp add: Geometry_init_def)
  obtain v where v: "validate exact_ops g = Some (Inr v)"
      "view_errors v = [Geometry_is_empty]" "\<not> view_valid v"
    using empty_geometry_like [OF e] by blast
  obtain res where res: "load exact_ops (\<lambda>m. ''text'') square_dxf_file = Some (Inr res)"
      "res_vertex_count res = 4"
    using load_square_dxf [of "\<lambda>m. ''text''"] by blast
  note t = load_fails_on_invalid_geometry [of exact_ops vbs_file g v ?r res]
  note t2 = load_fails_on_invalid_geometry [of exact_ops square_dxf_file g v "\<lambda>m. ''text''" res]
  have "load exact_ops ?r vbs_file
        = Some (Inl (Exception (''Failed to load GND file: Invalid geometry: ''
                 @ ''Geometry is empty (no vertices found)'')))"
    using t g v by simp
  moreover have "\<exists>g'. parse exact_ops square_dxf_file = Inr g'
        \<and> validate exact_ops g' = Some (Inr (res_validation res))
        \<and> view_valid (res_validation res) \<and> res_geometry res = g'"
    using t2 res by blast
  ultimately show ?thesis using g v res by blast
qed

lemma parse_vbs:
  assumes "map ascii_lower (suffix f) = ''.vbs''"
  shows "parse ops f = parse_vbscript f"
  using assms by (simp add: parse_def)

text \<open>
  Claim C10. For a file whose suffix is \<^verbatim>\<open>.vbs\<close> in any letter case, the parser returns,
  if the file can be read, a geometry with no vertices, edges or faces; its validation
  report has the emptiness error and is invalid; and \<^verbatim>\<open>load\<close> raises, with the validation
  message when the file was read and with the reading error otherwise. It never returns
  a result record.
\<close>

theorem vbscript_load_always_fails:
  assumes "map ascii_lower (suffix f) = ''.vbs''"
  shows "(parse ops f = Inr g \<longrightarrow>
            vertices g = [] \<and> edges g = [] \<and> faces g = []
          \<and> (\<exists>v. validate ops g = Some (Inr v) \<and> \<not> view_valid v
                \<and> view_errors v = [Geometry_is_empty]))
       \<and> load ops render f =
           Some (Inl (Exception (''Failed to load GND file: ''
                  @ (case text_read f of
                       Inl e \<Rightarrow> str_exc e
                     | Inr content \<Rightarrow> ''Invalid geometry: '' @ render Geometry_is_empty))))
       \<and> load ops render f \<noteq> Some (Inr res)"
proof -
  note p = parse_vbs [OF assms, of ops]
  have shape: "vertices g = [] \<and> edges g = [] \<and> faces g = []" if "parse ops f = Inr g"
    using that p by (auto simp: parse_vbscript_def Geometry_init_def split: sum.splits)
  have rep: "\<exists>v. validate ops g = Some (Inr v) \<and> \<not> view_valid v
      \<and> view_errors v = [Geometry_is_empty]"
    if "parse ops f = Inr g"
    using empty_geometry_like [of g ops] shape [OF that] by blast
  have l: "load ops render f =
           Some (Inl (Exception (''Failed to load GND file: ''
                  @ (case text_read f of
                       Inl e \<Rightarrow> str_exc e
                     | Inr content \<Rightarrow> ''Invalid geometry: '' @ render Geometry_is_empty))))"
  proof (cases "text_read f")
    case (Inl e)
    then show ?thesis by (simp add: load_def load_try_def p parse_vbscript_def)
  next
    case (Inr content)
    let ?g = "Geometry_init\<lparr>metadata := [(''source'', Text ''HFSS_VBScript''),
        (''script_content'', Text content), (''file_path'', Text (path_str f))]\<rparr>"
    have pg: "parse ops f = Inr ?g" using Inr by (simp add: p parse_vbscript_def)
    have "vertices ?g = []" by (simp add: Geometry_init_def)
    from empty_geometry_like [OF this, of ops]
    obtain v where "validate ops ?g = Some (Inr v)" "view_errors v = [Geometry_is_empty]"
        "\<not> view_valid v"
      by blast
    then show ?thesis using Inr pg by (simp add: load_def load_try_def)
  qed
  from l have "load ops render f \<noteq> Some (Inr res)" by simp
  with shape rep l show ?thesis by blast
qed

theorem vbscript_load_always_fails_witness:
  "map ascii_lower (suffix vbs_file) = ''.vbs''
   \<and> (\<exists>g. parse exact_ops vbs_file = Inr g \<and> vertices g = [] \<and> edges g = [] \<and> faces g = []
         \<and> (\<exists>v. validate exact_ops g = Some (Inr v) \<and> \<not> view_valid v
               \<and> view_errors v = [Geometry_is_empty]))
   \<and> load exact_ops (\<lambda>m. ''Geometry is empty (no vertices found)'') vbs_file
      = Some (Inl (Exception
          ''Failed to load GND file: Invalid geometry: Geometry is empty (no vertices found)''))"
proof -
  obtain g where g: "parse exact_ops vbs_file = Inr g"
    using parse_vbs_file by simp
  have tr: "text_read vbs_file = Inr ''Dim oAnsoftApp''" by (simp add: vbs_file_def)
  note t = vbscript_load_always_fails [OF vbs_file_format,
      of exact_ops g "\<lambda>m. ''Geometry is empty (no vertices found)''"]
  show ?thesis using t g tr vbs_file_format by simp
qed

subsection \<open>Repeated validation\<close>

lemma get_report_outcome:
  assumes d: "distinct_lists self" and "get_report ops self h = Some (Inr (r, k))"
  shows "\<exists>ms. size_outcome ops (geometry self) = Some (Inr ms)
           \<and> r = \<lparr>valid = (cells h (errors self) @ empty_messages (geometry self) @ ms = []),
                   errors_ref = errors self, warnings_ref = warnings self,
                   suggestions_ref = suggestions self\<rparr>
           \<and> k = run_result ops self ms h"
  using assms(2) unfolding get_report_run [OF d]
  by (auto split: option.splits sum.splits)

text \<open>
  Claim C7. Two validation runs on the same geometry, each on a freshly constructed
  validator as the loader makes one, produce reports with the same \<open>valid\<close> flag and the
  same errors, warnings and suggestions in the same order; the second run leaves what the
  first report shows as it was, and the geometry is what it was.
\<close>

theorem fresh_validation_repeatable:
  assumes "GNDValidator_init g h0 = (v1, h1)"
    and "get_report ops v1 h1 = Some (Inr (r1, k1))"
    and "GNDValidator_init g k1 = (v2, h2)"
  shows "\<exists>r2 k2. get_report ops v2 h2 = Some (Inr (r2, k2))
           \<and> read_report k2 r2 = read_report k1 r1
           \<and> read_report k2 r1 = read_report k1 r1
           \<and> geometry v1 = g \<and> geometry v2 = g"
proof -
  note i1 = init_shape [OF assms(1)] and i2 = init_shape [OF assms(3)]
  have d1: "distinct_lists v1" and d2: "distinct_lists v2"
    using assms(1,3) by (auto dest: distinct_lists_init)
  from get_report_outcome [OF d1 assms(2)] obtain ms where
    o: "size_outcome ops g = Some (Inr ms)"
    and r1: "r1 = \<lparr>valid = (cells h1 (errors v1) @ empty_messages g @ ms = []),
      errors_ref = errors v1, warnings_ref = warnings v1, suggestions_ref = suggestions v1\<rparr>"
    and k1: "k1 = run_result ops v1 ms h1"
    by (auto simp: i1(1))
  let ?r2 = "\<lparr>valid = (cells h2 (errors v2) @ empty_messages g @ ms = []),
      errors_ref = errors v2, warnings_ref = warnings v2, suggestions_ref = suggestions v2\<rparr>"
  let ?k2 = "run_result ops v2 ms h2"
  have gr: "get_report ops v2 h2 = Some (Inr (?r2, ?k2))"
    unfolding get_report_run [OF d2] by (simp add: i2(1) o)
  note c1 = cells_run_result [OF d1, where h = h1 and ops = ops and ms = ms]
    and c2 = cells_run_result [OF d2, where h = h2 and ops = ops and ms = ms]
  have nf: "next_free k1 = next_free h0 + 3" by (simp add: k1 c1(5) i1(5))
  have old: "errors v1 < next_free k1" "warnings v1 < next_free k1"
    "suggestions v1 < next_free k1"
    by (simp_all add: nf i1(2,3,4))
  have frame: "cells ?k2 a = cells k1 a" if "a < next_free k1" for a
    using that c2(4) [of a] i2(9) [of a] by (simp add: i2(2,3,4))
  have e1: "cells k1 (errors v1) = empty_messages g @ ms"
    and w1: "cells k1 (warnings v1) = expected_warnings g"
    and s1: "cells k1 (suggestions v1) = expected_suggestions ops g"
    unfolding k1 c1(1,2,3) i1(1,6,7,8) by simp_all
  have e2: "cells ?k2 (errors v2) = empty_messages g @ ms"
    and w2: "cells ?k2 (warnings v2) = expected_warnings g"
    and s2: "cells ?k2 (suggestions v2) = expected_suggestions ops g"
    unfolding c2(1,2,3) i2(1,6,7,8) by simp_all
  have same: "read_report ?k2 ?r2 = read_report k1 r1"
    unfolding read_report_def r1 by (simp add: e1 w1 s1 e2 w2 s2 i1(6) i2(6))
  have kept: "read_report ?k2 r1 = read_report k1 r1"
    using frame old by (simp add: read_report_def r1)
  show ?thesis
    using gr same kept i1(1) i2(1) by blast
qed

theorem fresh_validation_repeatable_witness:
  "\<exists>v1 h1 r1 k1 v2 h2 r2 k2.
      GNDValidator_init (square_geometry 20) empty_heap = (v1, h1)
    \<and> get_report exact_ops v1 h1 = Some (Inr (r1, k1))
    \<and> GNDValidator_init (square_geometry 20) k1 = (v2, h2)
    \<and> get_report exact_ops v2 h2 = Some (Inr (r2, k2))
    \<and> read_report k2 r2 = read_report k1 r1
    \<and> read_report k2 r1 = read_report k1 r1
    \<and> errors v2 \<noteq> errors v1
    \<and> view_errors (read_report k1 r1) = [Bounding_box_too_small 20 20 25]"
proof -
  let ?g = "square_geometry 20"
  obtain v1 h1 where i1: "GNDValidator_init ?g empty_heap = (v1, h1)"
    by (cases "GNDValidator_init ?g empty_heap")
  have d1: "distinct_lists v1" using i1 by (rule distinct_lists_init)
  note s1 = init_shape [OF i1]
  have ne: "vertices ?g \<noteq> []" by (simp add: square_geometry_def)
  let ?ms = "[Bounding_box_too_small 20 20 25 :: real message]"
  let ?r1 = "\<lparr>valid = (cells h1 (errors v1) @ empty_messages ?g @ ?ms = []),
      errors_ref = errors v1, warnings_ref = warnings v1, suggestions_ref = suggestions v1\<rparr>"
  let ?k1 = "run_result exact_ops v1 ?ms h1"
  have g1: "get_report exact_ops v1 h1 = Some (Inr (?r1, ?k1))"
    unfolding get_report_run [OF d1] by (simp add: s1(1) square20_outcome)
  obtain v2 h2 where i2: "GNDValidator_init ?g ?k1 = (v2, h2)"
    by (cases "GNDValidator_init ?g ?k1")
  from fresh_validation_repeatable [OF i1 g1 i2]
  obtain r2 k2 where t: "get_report exact_ops v2 h2 = Some (Inr (r2, k2))"
    "read_report k2 r2 = read_report ?k1 ?r1" "read_report k2 ?r1 = read_report ?k1 ?r1"
    by blast
  have ne2: "errors v2 \<noteq> errors v1"
    using init_shape(2) [OF i2] s1(2) s1(5)
      cells_run_result(5) [OF d1, where h = h1 and ops = exact_ops and ms = ?ms]
    by simp
  have e: "view_errors (read_report ?k1 ?r1) = ?ms"
    using cells_run_result(1) [OF d1, where h = h1 and ops = exact_ops and ms = ?ms] s1(1,6) ne
    by (simp add: read_report_def empty_messages_def)
  from i1 g1 i2 t ne2 e show ?thesis by blast
qed

subsection \<open>The point-in-polygon test counts crossings\<close>

lemma edge_step_spec:
  assumes "list_all (\<lambda>v. 2 \<le> length v) vs"
  shows "edge_step ops vs px py inside e = Inr (inside \<noteq> spec_crosses ops vs px py e)"
proof (cases "2 \<le> length e \<and> e ! 0 < length vs \<and> e ! 1 < length vs")
  case False
  then show ?thesis
    by (auto simp: edge_step_def spec_crosses_def Let_def)
next
  case True
  then have "2 \<le> length (vs ! (e ! 0))" "2 \<le> length (vs ! (e ! 1))"
    using assms by (simp_all add: list_all_length)
  then have "item (vs ! (e ! 0)) 0 = Inr (vs ! (e ! 0) ! 0)"
     "item (vs ! (e ! 0)) 1 = Inr (vs ! (e ! 0) ! 1)"
     "item (vs ! (e ! 1)) 0 = Inr (vs ! (e ! 1) ! 0)"
     "item (vs ! (e ! 1)) 1 = Inr (vs ! (e ! 1) ! 1)"
    by (auto simp: item_def)
  with True show ?thesis
    by (auto simp: edge_step_def spec_crosses_def Let_def)
qed

lemma edge_loop_spec:
  assumes "list_all (\<lambda>v. 2 \<le> length v) vs"
  shows "edge_loop ops vs px py es inside
         = Inr (inside \<noteq> odd (length (filter (spec_crosses ops vs px py) es)))"
  using assms
  by (induction es arbitrary: inside) (auto simp: edge_step_spec)

lemma point_in_polygon_spec:
  "well_formed_vertices g \<Longrightarrow> edges g \<noteq> [] \<Longrightarrow>
     point_in_polygon ops g px py = Inr (spec_inside ops g px py)"
  by (simp add: point_in_polygon_def edge_loop_spec spec_inside_def spec_crossings_def
      well_formed_vertices_def)

lemma all_in_polygon_spec:
  "well_formed_vertices g \<Longrightarrow> edges g \<noteq> [] \<Longrightarrow>
     all_in_polygon ops g ps = Inr (list_all (\<lambda>(px, py). spec_inside ops g px py) ps)"
  by (induction ps) (auto simp: point_in_polygon_spec split: bool.splits)

lemma footprint_spec:
  "well_formed_vertices g \<Longrightarrow> edges g \<noteq> [] \<Longrightarrow>
     all_in_polygon ops g (test_points ops (half_side ops) x y)
       = Inr (spec_footprint_inside ops g x y)"
  by (simp add: all_in_polygon_spec test_points_def spec_footprint_inside_def
      del: all_in_polygon.simps)

subsection \<open>Loops that step until they leave the box\<close>

lemma stops_at_0:
  "stops_at step in_box found x 0 b
     \<longleftrightarrow> (if in_box x then found x = Some True \<and> b else \<not> b)"
  by (simp add: stops_at_def)

lemma stops_at_Suc:
  assumes "in_box x" "found x = Some False"
  shows "stops_at step in_box found x (Suc n) b \<longleftrightarrow> stops_at step in_box found (step x) n b"
proof -
  have "(\<forall>k<Suc n. P k) \<longleftrightarrow> P 0 \<and> (\<forall>k<n. P (Suc k))" for P
    by (metis less_Suc_eq_0_disj)
  then show ?thesis
    using assms by (simp add: stops_at_def funpow_swap1)
qed




subsection \<open>The two loops of the grid search\<close>

lemmas x_loop_raw =
  x_loop.raw_induct [where xa = "(((((ops, g), half_antenna), max_x), y), x)" and ya = r,
    unfolded prod.case] for ops g half_antenna max_x y x r

lemma x_loop_stops:
  assumes tot: "\<And>ps. \<exists>b. all_in_polygon ops g ps = Inr b"
    and "stops_at (step5 ops) (\<lambda>x. fle ops x (fsub ops max_x half))
           (\<lambda>x. Some (all_in_polygon ops g (test_points ops half x y) = Inr True)) x n b"
  shows "x_loop ops g half max_x y x = Some (Inr b)"
  using assms(2)
proof (induction n arbitrary: x)
  case 0
  then show ?case
    by (subst x_loop.simps) (auto simp: stops_at_0 split: if_splits)
next
  case (Suc n)
  let ?w = "\<lambda>x. fle ops x (fsub ops max_x half)"
  let ?f = "\<lambda>x. Some (all_in_polygon ops g (test_points ops half x y) = Inr True)"
  from Suc.prems have w: "?w x" and f: "?f x = Some False"
    by (auto simp: stops_at_def)
  from Suc.prems have "stops_at (step5 ops) ?w ?f (step5 ops x) n b"
    using stops_at_Suc [of ?w x ?f "step5 ops" n b] w f by simp
  from Suc.IH [OF this] have r: "x_loop ops g half max_x y (step5 ops x) = Some (Inr b)" .
  obtain c where c: "all_in_polygon ops g (test_points ops half x y) = Inr c"
    using tot by blast
  with f have "\<not> c" by simp
  then show ?case
    using w c r by (subst x_loop.simps) (simp add: step5_def)
qed

lemma x_loop_returned:
  fixes ops :: "'f float_ops"
  assumes "x_loop ops g half max_x y x = Some r"
  shows "(\<forall>ps. \<exists>b. all_in_polygon ops g ps = Inr b) \<longrightarrow>
     (\<exists>n b. r = Inr b \<and>
        stops_at (step5 ops) (\<lambda>x. fle ops x (fsub ops max_x half))
          (\<lambda>x. Some (all_in_polygon ops g (test_points ops half x y) = Inr True)) x n b)"
  using assms
proof (rule x_loop_raw [rotated])
  fix f :: "'f float_ops \<Rightarrow> 'f Geometry \<Rightarrow> 'f \<Rightarrow> 'f \<Rightarrow> 'f \<Rightarrow> 'f \<Rightarrow> (py_error + bool) option"
    and ops :: "'f float_ops" and g half max_x y x r
  let ?w = "\<lambda>x. fle ops x (fsub ops max_x half)"
  let ?f = "\<lambda>x. Some (all_in_polygon ops g (test_points ops half x y) = Inr True)"
  assume ih: "\<And>ops g half max_x y x r. f ops g half max_x y x = Some r \<Longrightarrow>
     (\<forall>ps. \<exists>b. all_in_polygon ops g ps = Inr b) \<longrightarrow>
     (\<exists>n b. r = Inr b \<and>
        stops_at (step5 ops) (\<lambda>x. fle ops x (fsub ops max_x half))
          (\<lambda>x. Some (all_in_polygon ops g (test_points ops half x y) = Inr True)) x n b)"
  assume body: "(if fle ops x (fsub ops max_x half)
      then case all_in_polygon ops g (test_points ops half x y) of
           Inl err \<Rightarrow> Some (Inl err)
           | Inr fits \<Rightarrow>
               if fits then Some (Inr True)
               else f ops g half max_x y (fadd ops x (float_of_int ops 5))
      else Some (Inr False)) = Some r"
  show "(\<forall>ps. \<exists>b. all_in_polygon ops g ps = Inr b) \<longrightarrow>
     (\<exists>n b. r = Inr b \<and> stops_at (step5 ops) ?w ?f x n b)"
  proof
    assume tot: "\<forall>ps. \<exists>b. all_in_polygon ops g ps = Inr b"
    show "\<exists>n b. r = Inr b \<and> stops_at (step5 ops) ?w ?f x n b"
    proof (cases "?w x")
      case False
      then have "r = Inr False" "stops_at (step5 ops) ?w ?f x 0 False"
        using body by (simp_all add: stops_at_0)
      then show ?thesis by blast
    next
      case True
      obtain c where c: "all_in_polygon ops g (test_points ops half x y) = Inr c"
        using tot by blast
      show ?thesis
      proof (cases c)
        case True
        then have "r = Inr True" "stops_at (step5 ops) ?w ?f x 0 True"
          using body c \<open>?w x\<close> by (simp_all add: stops_at_0)
        then show ?thesis by blast
      next
        case False
        then have "f ops g half max_x y (step5 ops x) = Some r"
          using body c \<open>?w x\<close> by (simp add: step5_def)
        from ih [OF this] tot obtain n b where
          nb: "r = Inr b" "stops_at (step5 ops) ?w ?f (step5 ops x) n b"
          by blast
        have "?f x = Some False" using c False by simp
        then have "stops_at (step5 ops) ?w ?f x (Suc n) b"
          using stops_at_Suc [of ?w x ?f "step5 ops" n b] \<open>?w x\<close> nb(2) by simp
        with nb(1) show ?thesis by blast
      qed
    qed
  qed
qed

lemma row_found_Some:
  assumes tot: "\<And>ps. \<exists>b. all_in_polygon ops g ps = Inr b"
  shows "row_found ops g half min_x max_x y = Some b
     \<longleftrightarrow> x_loop ops g half max_x y (fadd ops min_x half) = Some (Inr b)"
proof -
  have "x_loop ops g half max_x y (fadd ops min_x half) \<noteq> Some (Inl e)" for e
    using x_loop_returned [of ops g half max_x y "fadd ops min_x half" "Inl e"] tot by auto
  then show ?thesis
    by (auto simp: row_found_def split: option.splits sum.splits)
qed

lemma row_found_stops:
  assumes tot: "\<And>ps. \<exists>b. all_in_polygon ops g ps = Inr b"
  shows "row_found ops g half min_x max_x y = Some b
     \<longleftrightarrow> (\<exists>n. stops_at (step5 ops) (\<lambda>x. fle ops x (fsub ops max_x half))
          (\<lambda>x. Some (all_in_polygon ops g (test_points ops half x y) = Inr True))
          (fadd ops min_x half) n b)"
  unfolding row_found_Some [of ops g, OF tot]
  using x_loop_stops [of ops g max_x half y "fadd ops min_x half" _ b, OF tot]
    x_loop_returned [of ops g half max_x y "fadd ops min_x half" "Inr b"] tot
  by auto

lemma y_loop_stops:
  assumes tot: "\<And>ps. \<exists>b. all_in_polygon ops g ps = Inr b"
    and "stops_at (step5 ops) (\<lambda>y. fle ops y (fsub ops max_y half))
           (row_found ops g half min_x max_x) y n b"
  shows "y_loop ops g half min_x max_x max_y y = Some (Inr b)"
  using assms(2)
proof (induction n arbitrary: y)
  case 0
  note rf = row_found_Some [of ops g half min_x max_x y, OF tot]
  from 0 show ?case
    by (subst y_loop.simps) (auto simp: stops_at_0 rf split: if_splits)
next
  case (Suc n)
  let ?w = "\<lambda>y. fle ops y (fsub ops max_y half)"
  let ?f = "row_found ops g half min_x max_x"
  from Suc.prems have w: "?w y" and f: "?f y = Some False"
    by (auto simp: stops_at_def)
  from Suc.prems have "stops_at (step5 ops) ?w ?f (step5 ops y) n b"
    using stops_at_Suc [of ?w y ?f "step5 ops" n b] w f by simp
  from Suc.IH [OF this] have r: "y_loop ops g half min_x max_x max_y (step5 ops y) = Some (Inr b)" .
  have x: "x_loop ops g half max_x y (fadd ops min_x half) = Some (Inr False)"
    using f row_found_Some [of ops g half min_x max_x y False, OF tot] by simp
  show ?case
    using w x r by (subst y_loop.simps) (simp add: step5_def)
qed

lemma y_loop_returned:
  fixes ops :: "'f float_ops"
  assumes "y_loop ops g half min_x max_x max_y y = Some r"
  shows "(\<forall>ps. \<exists>b. all_in_polygon ops g ps = Inr b) \<longrightarrow>
     (\<exists>n b. r = Inr b \<and>
        stops_at (step5 ops) (\<lambda>y. fle ops y (fsub ops max_y half))
          (row_found ops g half min_x max_x) y n b)"
  using assms
proof (rule y_loop.raw_induct [rotated])
  fix f :: "'f float_ops \<Rightarrow> 'f Geometry \<Rightarrow> 'f \<Rightarrow> 'f \<Rightarrow> 'f \<Rightarrow> 'f \<Rightarrow> 'f \<Rightarrow> (py_error + bool) option"
    and ops :: "'f float_ops" and g half min_x max_x max_y y r
  let ?w = "\<lambda>y. fle ops y (fsub ops max_y half)"
  let ?f = "row_found ops g half min_x max_x"
  assume ih: "\<And>ops g half min_x max_x max_y y r.
     f ops g half min_x max_x max_y y = Some r \<Longrightarrow>
     (\<forall>ps. \<exists>b. all_in_polygon ops g ps = Inr b) \<longrightarrow>
     (\<exists>n b. r = Inr b \<and>
        stops_at (step5 ops) (\<lambda>y. fle ops y (fsub ops max_y half))
          (row_found ops g half min_x max_x) y n b)"
  assume body: "(if fle ops y (fsub ops max_y half)
      then case x_loop ops g half max_x y (fadd ops min_x half) of
           None \<Rightarrow> None | Some (Inl err) \<Rightarrow> Some (Inl err)
           | Some (Inr found) \<Rightarrow>
               if found then Some (Inr True)
               else f ops g half min_x max_x max_y (fadd ops y (float_of_int ops 5))
      else Some (Inr False)) = Some r"
  show "(\<forall>ps. \<exists>b. all_in_polygon ops g ps = Inr b) \<longrightarrow>
     (\<exists>n b. r = Inr b \<and> stops_at (step5 ops) ?w ?f y n b)"
  proof
    assume tot: "\<forall>ps. \<exists>b. all_in_polygon ops g ps = Inr b"
    then have tot': "\<And>ps. \<exists>b. all_in_polygon ops g ps = Inr b" by blast
    show "\<exists>n b. r = Inr b \<and> stops_at (step5 ops) ?w ?f y n b"
    proof (cases "?w y")
      case False
      then have "r = Inr False" "stops_at (step5 ops) ?w ?f y 0 False"
        using body by (simp_all add: stops_at_0)
      then show ?thesis by blast
    next
      case True
      from body True obtain xr where
        xr: "x_loop ops g half max_x y (fadd ops min_x half) = Some xr"
        by (auto split: option.splits)
      from x_loop_returned [OF xr] tot obtain c where c: "xr = Inr c" by blast
      have rf: "?f y = Some c"
        using row_found_Some [of ops g half min_x max_x y c, OF tot'] xr c by simp
      show ?thesis
      proof (cases c)
        case True
        then have "r = Inr True" "stops_at (step5 ops) ?w ?f y 0 True"
          using body xr c rf \<open>?w y\<close> by (simp_all add: stops_at_0)
        then show ?thesis by blast
      next
        case False
        then have "f ops g half min_x max_x max_y (step5 ops y) = Some r"
          using body xr c \<open>?w y\<close> by (simp add: step5_def)
        from ih [OF this] tot obtain n b where
          nb: "r = Inr b" "stops_at (step5 ops) ?w ?f (step5 ops y) n b"
          by blast
        have "?f y = Some False" using rf False by simp
        then have "stops_at (step5 ops) ?w ?f y (Suc n) b"
          using stops_at_Suc [of ?w y ?f "step5 ops" n b] \<open>?w y\<close> nb(2) by simp
        with nb(1) show ?thesis by blast
      qed
    qed
  qed
qed

subsection \<open>The grid search computes the specified search\<close>

lemma all_in_polygon_total:
  assumes "well_formed_vertices g" "edges g \<noteq> []"
  shows "\<exists>b. all_in_polygon ops g ps = Inr b"
  using all_in_polygon_spec [OF assms] by blast

lemma footprint_found:
  assumes "well_formed_vertices g" "edges g \<noteq> []"
  shows "(\<lambda>x. Some (all_in_polygon ops g (test_points ops (half_side ops) x y) = Inr True))
     = (\<lambda>x. Some (spec_footprint_inside ops g x y))"
  by (simp add: footprint_spec [OF assms])

lemma row_found_spec:
  assumes "well_formed_vertices g" "edges g \<noteq> []"
  shows "row_found ops g (half_side ops) (bbox_min_x ops g) (bbox_max_x ops g) y = Some b
     \<longleftrightarrow> (\<exists>n. stops_at (step5 ops) (within_x ops g)
                 (\<lambda>x. Some (spec_footprint_inside ops g x y)) (candidate_x ops g 0) n b)"
  unfolding row_found_stops [of ops g, OF all_in_polygon_total [OF assms]]
    footprint_found [OF assms]
  by (simp add: within_x_def [abs_def] candidate_x_def)

lemma candidate_x_funpow: "(step5 ops ^^ k) (candidate_x ops g 0) = candidate_x ops g k"
  by (simp add: candidate_x_def)


lemma test_antenna_fit_unfold:
  "test_antenna_fit ops g 25 (bbox_min_x ops g) (bbox_max_x ops g) (bbox_min_y ops g)
     (bbox_max_y ops g)
   = y_loop ops g (half_side ops) (bbox_min_x ops g) (bbox_max_x ops g) (bbox_max_y ops g)
       (candidate_y ops g 0)"
  by (simp add: test_antenna_fit_def half_side_def candidate_y_def Let_def)

lemma test_antenna_fit_stops:
  assumes wf: "well_formed_vertices g" and ed: "edges g \<noteq> []"
  shows "test_antenna_fit ops g 25 (bbox_min_x ops g) (bbox_max_x ops g) (bbox_min_y ops g)
           (bbox_max_y ops g) = Some r
     \<longleftrightarrow> (\<exists>n b. r = Inr b \<and>
           stops_at (step5 ops) (within_y ops g)
             (row_found ops g (half_side ops) (bbox_min_x ops g) (bbox_max_x ops g))
             (candidate_y ops g 0) n b)"
proof -
  note tot = all_in_polygon_total [OF wf ed, of ops]
  have w: "(\<lambda>y. fle ops y (fsub ops (bbox_max_y ops g) (half_side ops))) = within_y ops g"
    by (simp add: within_y_def [abs_def])
  show ?thesis
    unfolding test_antenna_fit_unfold
    using y_loop_stops [of ops g "bbox_max_y ops g" "half_side ops" "bbox_min_x ops g"
        "bbox_max_x ops g" "candidate_y ops g 0", OF tot]
      y_loop_returned [of ops g "half_side ops" "bbox_min_x ops g" "bbox_max_x ops g"
        "bbox_max_y ops g" "candidate_y ops g 0" r] tot
    unfolding w by blast
qed




text \<open>A sweep that never leaves the box and finds no fit in its first row does not
  return.\<close>

lemma test_antenna_fit_diverges:
  assumes wf: "well_formed_vertices g" and ed: "edges g \<noteq> []"
    and "within_y ops g (candidate_y ops g 0)"
    and "\<And>i. within_x ops g (candidate_x ops g i)"
    and "\<And>i. \<not> spec_footprint_inside ops g (candidate_x ops g i) (candidate_y ops g 0)"
  shows "test_antenna_fit ops g 25 (bbox_min_x ops g) (bbox_max_x ops g)
       (bbox_min_y ops g) (bbox_max_y ops g) = None"
proof (rule ccontr)
  let ?rf = "row_found ops g (half_side ops) (bbox_min_x ops g) (bbox_max_x ops g)"
  assume "\<not> ?thesis"
  then obtain r where "test_antenna_fit ops g 25 (bbox_min_x ops g) (bbox_max_x ops g)
       (bbox_min_y ops g) (bbox_max_y ops g) = Some r"
    by auto
  then obtain m b where
    st: "stops_at (step5 ops) (within_y ops g) ?rf (candidate_y ops g 0) m b"
    unfolding test_antenna_fit_stops [OF wf ed] by blast
  have "\<exists>c. ?rf (candidate_y ops g 0) = Some c"
  proof (cases m)
    case 0
    then show ?thesis using st assms(3) by (auto simp: stops_at_0)
  next
    case (Suc k)
    then have "?rf ((step5 ops ^^ 0) (candidate_y ops g 0)) = Some False"
      using st unfolding stops_at_def by blast
    then show ?thesis by auto
  qed
  then obtain c n where "stops_at (step5 ops) (within_x ops g)
       (\<lambda>x. Some (spec_footprint_inside ops g x (candidate_y ops g 0)))
       (candidate_x ops g 0) n c"
    unfolding row_found_spec [OF wf ed] by blast
  then show False
    using assms(4,5) by (auto simp: stops_at_def candidate_x_funpow split: if_splits)
qed

subsection \<open>Placement feasibility\<close>





end
